(* ===== verification/Py_Prelude.thy ===== *)
theory Py_Prelude
  imports Complex_Main "HOL-Library.Multiset" "HOL-Library.Product_Lexorder"
begin

text \<open>
  Shared vocabulary of the model of \<open>src/backend/app.py\<close>: how a handler reads a
  field of a decoded JSON body (\<open>dict.get\<close> with a default), Python's built-in
  \<open>round\<close> and \<open>int\<close> on floats, and the two numpy helpers the handlers call
  (\<open>np.arange\<close>, \<open>np.mean\<close>).  Floats are modelled as exact reals: the rounding
  error of IEEE arithmetic is not modelled, every other step of the computation is.
  The collection \<open>model_simps\<close> gathers the evaluation rules that the witnesses of
  the component theories use.
\<close>

named_theorems model_simps "rules that evaluate the model on concrete requests"

type_synonym json_num = "real option"
  \<comment> \<open>a numeric field of a JSON object; \<open>None\<close> when the key is absent\<close>

subsection \<open>Reading fields: \<open>d.get(key, default)\<close>\<close>

definition get_default :: "'a \<Rightarrow> 'a option \<Rightarrow> 'a" where
  "get_default d v = (case v of None \<Rightarrow> d | Some x \<Rightarrow> x)"

subsection \<open>Python's \<open>round(x)\<close> on a float: round half to even\<close>

definition py_round :: "real \<Rightarrow> int" where
  "py_round x =
     (let f = \<lfloor>x\<rfloor>; d = x - of_int f in
      if d < 1/2 then f else if 1/2 < d then f + 1 else if even f then f else f + 1)"

subsection \<open>Python's \<open>int(x)\<close> on a float: truncation towards zero\<close>

definition py_int :: "real \<Rightarrow> int" where
  "py_int x = (if 0 \<le> x then \<lfloor>x\<rfloor> else \<lceil>x\<rceil>)"

subsection \<open>numpy: \<open>np.arange(a, b)\<close> and \<open>np.mean(y)\<close>\<close>

definition np_arange :: "int \<Rightarrow> int \<Rightarrow> real list" where
  "np_arange a b = map of_int [a..b - 1]"

definition np_mean :: "real list \<Rightarrow> real" where
  "np_mean ys = sum_list ys / real (length ys)"

text \<open>\<open>np.std(r)\<close>: the population standard deviation (\<open>ddof = 0\<close>).\<close>

definition np_std :: "real list \<Rightarrow> real" where
  "np_std xs = sqrt (np_mean (map (\<lambda>x. (x - np_mean xs)\<^sup>2) xs))"

subsection \<open>Properties of field reading, rounding and the numpy helpers\<close>

lemma get_default_simps [simp, model_simps]:
  "get_default d None = d" "get_default d (Some x) = x"
  by (simp_all add: get_default_def)

lemma py_round_floor_cases: "py_round x = \<lfloor>x\<rfloor> \<or> py_round x = \<lfloor>x\<rfloor> + 1"
  by (simp add: py_round_def Let_def)

lemma py_round_int [simp]: "py_round (of_int k) = k"
  by (simp add: py_round_def)

lemma py_round_0 [simp]: "py_round 0 = 0"
  using py_round_int [of 0] by simp

lemma py_round_nat [simp]: "py_round (of_nat n) = int n"
  using py_round_int [of "int n"] by simp

lemma py_round_numeral [simp, model_simps]: "py_round (numeral k) = numeral k"
  using py_round_int [of "numeral k"] by simp

lemma py_round_dist: "\<bar>x - of_int (py_round x)\<bar> \<le> 1/2"
proof -
  have "of_int \<lfloor>x\<rfloor> \<le> x" "x < of_int \<lfloor>x\<rfloor> + 1"
    by (simp_all add: of_int_floor_le)
  then show ?thesis
    by (auto simp: py_round_def Let_def)
qed

lemma py_round_mono:
  assumes "x \<le> y"
  shows "py_round x \<le> py_round y"
proof (cases "\<lfloor>x\<rfloor> < \<lfloor>y\<rfloor>")
  case True
  then show ?thesis
    using py_round_floor_cases [of x] py_round_floor_cases [of y] by linarith
next
  case False
  with assms have eq: "\<lfloor>x\<rfloor> = \<lfloor>y\<rfloor>"
    by (meson floor_mono not_less order_antisym)
  with assms show ?thesis
    by (auto simp: py_round_def Let_def)
qed

lemma py_round_nonneg: "0 \<le> x \<Longrightarrow> 0 \<le> py_round x"
  using py_round_mono [of 0 x] by simp

lemma py_round_le_int: "x \<le> of_int k \<Longrightarrow> py_round x \<le> k"
  using py_round_mono [of x "of_int k"] by simp

lemma py_round_ge_int: "of_int k \<le> x \<Longrightarrow> k \<le> py_round x"
  using py_round_mono [of "of_int k" x] by simp

lemma py_round_neg: "py_round (- x) = - py_round x"
proof (cases "x = of_int \<lfloor>x\<rfloor>")
  case True
  then show ?thesis by (metis py_round_int of_int_minus)
next
  case False
  have lt: "of_int \<lfloor>x\<rfloor> < x" using False of_int_floor_le [of x] by linarith
  have fl: "\<lfloor>- x\<rfloor> = - \<lfloor>x\<rfloor> - 1"
    by (rule floor_unique) (use lt in \<open>simp_all, linarith\<close>)
  show ?thesis
    unfolding py_round_def Let_def fl by (auto simp: even_minus)
qed

text \<open>A tie goes to the even neighbour.\<close>

lemma py_round_half: "py_round (of_int k + 1 / 2) = (if even k then k else k + 1)"
proof -
  have "\<lfloor>of_int k + 1 / 2 :: real\<rfloor> = k" by (rule floor_unique) simp_all
  then show ?thesis by (simp add: py_round_def Let_def)
qed

lemma py_int_int [simp]: "py_int (of_int k) = k"
  by (simp add: py_int_def)

lemma py_int_nonpos: "x < 1 \<Longrightarrow> py_int x \<le> 0"
  by (auto simp: py_int_def floor_less_iff)

lemma length_np_arange [simp]: "length (np_arange a b) = nat (b - a)"
  by (simp add: np_arange_def)

lemma np_arange_empty: "b \<le> a \<Longrightarrow> np_arange a b = []"
  by (simp add: np_arange_def)

lemma np_arange_0: "np_arange 0 (int n) = map real [0..<n]"
proof (induction n)
  case 0
  then show ?case by (simp add: np_arange_def)
next
  case (Suc n)
  have "[0..int (Suc n) - 1] = [0..int n - 1] @ [int n]"
    using upto_rec2 [of 0 "int n"] by simp
  with Suc show ?case
    by (simp add: np_arange_def)
qed

lemma np_arange_shift: "np_arange (int n) (int n + h) = map (\<lambda>k. real n + real k) [0..<nat h]"
  by (rule nth_equalityI) (auto simp: np_arange_def)

lemma np_mean_replicate: "0 < n \<Longrightarrow> np_mean (replicate n v) = v"
  by (simp add: np_mean_def sum_list_replicate)

subsection \<open>Sums over lists\<close>

text \<open>Adding a constant to every value moves the mean and keeps the deviations.\<close>

lemma np_mean_shift: "xs \<noteq> [] \<Longrightarrow> np_mean (map (\<lambda>v. v + c) xs) = np_mean xs + c"
  by (simp add: np_mean_def sum_list_addf sum_list_triv add_divide_distrib)

lemma sq_dev_shift:
  "xs \<noteq> [] \<Longrightarrow>
   (\<Sum>v\<leftarrow>map (\<lambda>v. v + c) xs. (v - np_mean (map (\<lambda>v. v + c) xs))\<^sup>2) = (\<Sum>v\<leftarrow>xs. (v - np_mean xs)\<^sup>2)"
  by (simp add: np_mean_shift comp_def)

lemma sum_list_sq_nonneg [simp]: "0 \<le> (\<Sum>x\<leftarrow>xs. (f x)\<^sup>2 :: real)"
  by (induction xs) auto

lemma sum_list_sq_eq_0:
  "(\<Sum>x\<leftarrow>xs. (f x)\<^sup>2 :: real) = 0 \<longleftrightarrow> (\<forall>x \<in> set xs. f x = 0)"
proof (induction xs)
  case Nil
  then show ?case by simp
next
  case (Cons a xs)
  have "0 \<le> (\<Sum>x\<leftarrow>xs. (f x)\<^sup>2)" by simp
  then show ?case
    using Cons.IH by (auto simp: add_nonneg_eq_0_iff)
qed

lemma sum_list_map2_nth:
  "length xs = length ys \<Longrightarrow>
   sum_list (map2 f xs ys) = (\<Sum>i<length xs. f (xs ! i) (ys ! i))"
  by (simp add: sum_list_sum_nth atLeast0LessThan)

lemma sum_list_map_nth: "sum_list (map f xs) = (\<Sum>i<length xs. f (xs ! i))"
  by (simp add: sum_list_sum_nth atLeast0LessThan)

lemma np_std_nonneg [simp]: "0 \<le> np_std xs"
  by (simp add: np_std_def np_mean_def)

lemma np_std_replicate_0 [simp]: "np_std (replicate n 0) = 0"
  by (simp add: np_std_def np_mean_def sum_list_replicate)

lemma sum_list_upt_real: "sum_list (map real [0..<h]) = real h * (real h - 1) / 2"
  by (induction h) (simp_all add: field_simps)

end
