(* ===== verification/Linear_Fit.thy ===== *)
theory Linear_Fit
  imports Py_Prelude
begin

text \<open>
  The shared regression utility: \<open>LinearRegression().fit(X, y)\<close> and
  \<open>model.predict(X)\<close> of scikit-learn, called with one feature column by both
  forecasting handlers of \<open>src/backend/app.py\<close>.  The library is not part of the
  repository; the definitions follow its documented algorithm (centre \<open>X\<close> and
  \<open>y\<close> on their means, solve the least-squares problem for the centred data with the
  minimum-norm solution, recover the intercept from the means).  For one feature the
  minimum-norm solution is \<open>sxy / sxx\<close>, and \<open>0\<close> when the centred column is zero
  (a single observation).  \<open>model.predict\<close> validates its input first: an array of
  zero samples raises \<open>ValueError\<close> (\<open>lr_predict_batch\<close>); on a non-empty array it
  evaluates the line at every sample.  The lemmas show the normal equations and that
  the fitted line minimises the sum of squared residuals over all lines.
\<close>

text \<open>The exceptions the modelled code can raise.\<close>

datatype py_error = ValueError string

record lin_model =
  coef :: real
  intercept :: real

definition lr_fit :: "real list \<Rightarrow> real list \<Rightarrow> lin_model" where
  "lr_fit X y =
     (let x_off = np_mean X; y_off = np_mean y;
          xc = map (\<lambda>x. x - x_off) X; yc = map (\<lambda>v. v - y_off) y;
          sxx = (\<Sum>x\<leftarrow>xc. x\<^sup>2); sxy = sum_list (map2 (*) xc yc);
          c = (if sxx = 0 then 0 else sxy / sxx)
      in \<lparr>coef = c, intercept = y_off - x_off * c\<rparr>)"

definition lr_predict :: "lin_model \<Rightarrow> real \<Rightarrow> real" where
  "lr_predict m x = coef m * x + intercept m"

text \<open>\<open>model.predict(X)\<close> on a column of samples: scikit-learn's input check rejects an
  array with no sample (\<open>ensure_min_samples = 1\<close>).\<close>

definition lr_predict_batch :: "lin_model \<Rightarrow> real list \<Rightarrow> py_error + real list" where
  "lr_predict_batch m xs =
     (if xs = [] then Inl (ValueError ''Found array with 0 sample(s)'')
      else Inr (map (lr_predict m) xs))"

text \<open>\<open>np.sum((y - yhat) ** 2)\<close>: the squared distance of two vectors.\<close>

definition sq_dist :: "real list \<Rightarrow> real list \<Rightarrow> real" where
  "sq_dist y yhat = sum_list (map2 (\<lambda>a b. (a - b)\<^sup>2) y yhat)"

abbreviation ssr :: "real list \<Rightarrow> real list \<Rightarrow> lin_model \<Rightarrow> real" where
  "ssr X y m \<equiv> sq_dist y (map (lr_predict m) X)"

subsection \<open>Centred sums\<close>

lemma sum_centred: "(\<Sum>i<n. f i - (\<Sum>j<n. f j) / real n) = (0::real)"
  by (cases "n = 0") (simp_all add: sum_subtractf)

lemma np_mean_sum: "np_mean xs = (\<Sum>i<length xs. xs ! i) / real (length xs)"
  by (simp add: np_mean_def sum_list_map_nth [where f = id, simplified])

lemma lr_fit_unfold:
  fixes X y :: "real list" and n :: nat
  assumes lx: "length X = n" and ly: "length y = n"
  defines "xo \<equiv> (\<Sum>i<n. X ! i) / real n" and "yo \<equiv> (\<Sum>i<n. y ! i) / real n"
  defines "sxx \<equiv> (\<Sum>i<n. (X ! i - xo)\<^sup>2)" and "sxy \<equiv> (\<Sum>i<n. (X ! i - xo) * (y ! i - yo))"
  shows "lr_fit X y = \<lparr>coef = (if sxx = 0 then 0 else sxy / sxx),
                        intercept = yo - xo * (if sxx = 0 then 0 else sxy / sxx)\<rparr>"
proof -
  have m: "np_mean X = xo" "np_mean y = yo"
    using lx ly by (simp_all add: xo_def yo_def np_mean_sum)
  have "(\<Sum>x\<leftarrow>map (\<lambda>x. x - xo) X. x\<^sup>2) = sxx"
    using lx unfolding sxx_def by (simp add: sum_list_map_nth)
  moreover have "sum_list (map2 (*) (map (\<lambda>x. x - xo) X) (map (\<lambda>v. v - yo) y)) = sxy"
    using lx ly unfolding sxy_def by (simp add: sum_list_map2_nth)
  ultimately show ?thesis
    by (simp add: lr_fit_def m Let_def)
qed

subsection \<open>Normal equations and optimality, on indexed data\<close>

lemma ols_residuals:
  fixes x y :: "nat \<Rightarrow> real" and n :: nat
  defines "xo \<equiv> (\<Sum>i<n. x i) / real n" and "yo \<equiv> (\<Sum>i<n. y i) / real n"
  defines "sxx \<equiv> (\<Sum>i<n. (x i - xo)\<^sup>2)" and "sxy \<equiv> (\<Sum>i<n. (x i - xo) * (y i - yo))"
  defines "c \<equiv> (if sxx = 0 then 0 else sxy / sxx)"
  shows ols_resid_sum: "(\<Sum>i<n. y i - (c * x i + (yo - xo * c))) = 0"
    and ols_resid_centred: "(\<Sum>i<n. (x i - xo) * (y i - (c * x i + (yo - xo * c)))) = 0"
proof -
  have r: "\<And>i. y i - (c * x i + (yo - xo * c)) = (y i - yo) - c * (x i - xo)"
    by (simp add: algebra_simps)
  have cx: "(\<Sum>i<n. x i - xo) = 0" and cy: "(\<Sum>i<n. y i - yo) = 0"
    unfolding xo_def yo_def by (rule sum_centred)+
  have "(\<Sum>i<n. y i - (c * x i + (yo - xo * c))) = (\<Sum>i<n. (y i - yo) - c * (x i - xo))"
    by (simp only: r)
  also have "\<dots> = (\<Sum>i<n. y i - yo) - (\<Sum>i<n. c * (x i - xo))"
    by (rule sum_subtractf)
  also have "\<dots> = (\<Sum>i<n. y i - yo) - c * (\<Sum>i<n. x i - xo)"
    by (simp only: sum_distrib_left)
  finally show "(\<Sum>i<n. y i - (c * x i + (yo - xo * c))) = 0"
    by (simp only: cx cy mult_zero_right diff_self)
  have p: "\<And>i. (x i - xo) * (y i - (c * x i + (yo - xo * c)))
                = (x i - xo) * (y i - yo) - c * (x i - xo)\<^sup>2"
    by (simp add: r algebra_simps power2_eq_square)
  have "(\<Sum>i<n. (x i - xo) * (y i - (c * x i + (yo - xo * c)))) = sxy - c * sxx"
    by (simp only: p sum_subtractf sxx_def sxy_def sum_distrib_left)
  also have "\<dots> = 0"
  proof (cases "sxx = 0")
    case True
    then have "\<forall>i\<in>{..<n}. (x i - xo)\<^sup>2 = 0"
      unfolding sxx_def by (subst sum_nonneg_eq_0_iff [symmetric]) auto
    then have "sxy = 0" unfolding sxy_def by simp
    with True show ?thesis by (simp add: c_def)
  next
    case False
    then show ?thesis by (simp add: c_def)
  qed
  finally show "(\<Sum>i<n. (x i - xo) * (y i - (c * x i + (yo - xo * c)))) = 0" .
qed

lemma ols_minimal:
  fixes x y :: "nat \<Rightarrow> real" and n :: nat
  defines "xo \<equiv> (\<Sum>i<n. x i) / real n" and "yo \<equiv> (\<Sum>i<n. y i) / real n"
  defines "sxx \<equiv> (\<Sum>i<n. (x i - xo)\<^sup>2)" and "sxy \<equiv> (\<Sum>i<n. (x i - xo) * (y i - yo))"
  defines "c \<equiv> (if sxx = 0 then 0 else sxy / sxx)"
  shows "(\<Sum>i<n. (y i - (c * x i + (yo - xo * c)))\<^sup>2) \<le> (\<Sum>i<n. (y i - (a * x i + b))\<^sup>2)"
proof -
  define r where "r i = y i - (c * x i + (yo - xo * c))" for i
  define d where "d i = (c - a) * x i + ((yo - xo * c) - b)" for i
  have s0: "(\<Sum>i<n. r i) = 0"
    unfolding r_def c_def sxx_def sxy_def xo_def yo_def by (rule ols_resid_sum)
  have s1: "(\<Sum>i<n. (x i - xo) * r i) = 0"
    unfolding r_def c_def sxx_def sxy_def xo_def yo_def by (rule ols_resid_centred)
  have "(\<Sum>i<n. x i * r i) = (\<Sum>i<n. (x i - xo) * r i + xo * r i)"
    by (simp add: algebra_simps)
  also have "\<dots> = (\<Sum>i<n. (x i - xo) * r i) + xo * (\<Sum>i<n. r i)"
    by (simp only: sum.distrib sum_distrib_left)
  finally have "(\<Sum>i<n. x i * r i) = (\<Sum>i<n. (x i - xo) * r i) + xo * (\<Sum>i<n. r i)" .
  with s0 s1 have sx: "(\<Sum>i<n. x i * r i) = 0" by simp
  have cross: "(\<Sum>i<n. r i * d i) = 0"
  proof -
    have "\<And>i. r i * d i = (c - a) * (x i * r i) + ((yo - xo * c) - b) * r i"
      by (simp add: d_def algebra_simps)
    then have "(\<Sum>i<n. r i * d i) = (c - a) * (\<Sum>i<n. x i * r i) + ((yo - xo * c) - b) * (\<Sum>i<n. r i)"
      by (simp only: sum.distrib sum_distrib_left)
    with s0 sx show ?thesis by simp
  qed
  have split: "\<And>i. (y i - (a * x i + b))\<^sup>2 = (r i)\<^sup>2 + 2 * (r i * d i) + (d i)\<^sup>2"
    by (simp add: r_def d_def power2_eq_square algebra_simps)
  have "(\<Sum>i<n. (y i - (a * x i + b))\<^sup>2) = (\<Sum>i<n. (r i)\<^sup>2) + 2 * (\<Sum>i<n. r i * d i) + (\<Sum>i<n. (d i)\<^sup>2)"
    by (simp add: split sum.distrib sum_distrib_left)
  also have "\<dots> \<ge> (\<Sum>i<n. (r i)\<^sup>2)"
    by (simp add: cross sum_nonneg)
  finally show ?thesis by (simp add: r_def)
qed

subsection \<open>The fitted model of \<open>fit(X, y)\<close>\<close>

lemma sq_dist_nth:
  "length X = length y \<Longrightarrow>
   sq_dist y (map (lr_predict m) X) = (\<Sum>i<length X. (y ! i - (coef m * X ! i + intercept m))\<^sup>2)"
  by (simp add: sq_dist_def sum_list_map2_nth lr_predict_def)

lemma sq_dist_nonneg [simp]: "0 \<le> sq_dist y z"
  by (simp add: sq_dist_def sum_list_nonneg case_prod_unfold)

text \<open>Least squares: no line has a smaller sum of squared residuals than the fitted one.\<close>

lemma lr_fit_least_squares:
  assumes "length X = length y"
  shows "ssr X y (lr_fit X y) \<le> ssr X y m"
proof -
  let ?n = "length X"
  have "ssr X y (lr_fit X y) = (\<Sum>i<?n. (y ! i - (coef (lr_fit X y) * X ! i + intercept (lr_fit X y)))\<^sup>2)"
    using assms by (rule sq_dist_nth)
  also have "\<dots> \<le> (\<Sum>i<?n. (y ! i - (coef m * X ! i + intercept m))\<^sup>2)"
    using ols_minimal [where x = "(!) X" and y = "(!) y" and n = ?n and a = "coef m" and b = "intercept m"] assms
    by (simp add: lr_fit_unfold [OF refl assms [symmetric]])
  also have "\<dots> = ssr X y m"
    using assms by (rule sq_dist_nth [symmetric])
  finally show ?thesis .
qed

text \<open>C3: The fitted line minimises the sum of squared residuals over all lines.\<close>

theorem lr_fit_optimal:
  assumes "length X = length y"
  shows "ssr X y (lr_fit X y) \<le> ssr X y m"
  using assms by (rule lr_fit_least_squares)

theorem lr_fit_optimal_witness:
  "length [0, 1, 2 :: real] = length [1, 0, 4 :: real]
   \<and> ssr [0, 1, 2] [1, 0, 4] (lr_fit [0, 1, 2] [1, 0, 4])
       \<le> ssr [0, 1, 2] [1, 0, 4] \<lparr>coef = 2, intercept = 0\<rparr>"
  using lr_fit_optimal [of "[0, 1, 2]" "[1, 0, 4]" "\<lparr>coef = 2, intercept = 0\<rparr>"] by simp

text \<open>The residuals of the fit sum to zero (the first normal equation).\<close>

lemma lr_fit_resid_sum:
  assumes "length X = length y"
  shows "sum_list (map2 (-) y (map (lr_predict (lr_fit X y)) X)) = 0"
proof -
  let ?n = "length X"
  have "sum_list (map2 (-) y (map (lr_predict (lr_fit X y)) X))
        = (\<Sum>i<?n. y ! i - (coef (lr_fit X y) * X ! i + intercept (lr_fit X y)))"
    using assms by (simp add: sum_list_map2_nth lr_predict_def)
  also have "\<dots> = 0"
    using ols_resid_sum [where x = "(!) X" and y = "(!) y" and n = ?n] assms
    by (simp add: lr_fit_unfold [OF refl assms [symmetric]])
  finally show ?thesis .
qed

text \<open>A flat series is fitted by the flat line through it, whatever the abscissae.\<close>

lemma lr_fit_replicate:
  assumes "length X = n" "0 < n"
  shows "lr_fit X (replicate n v) = \<lparr>coef = 0, intercept = v\<rparr>"
proof -
  have "(\<Sum>i<n. replicate n v ! i) = real n * v" by simp
  with assms show ?thesis
    by (simp add: lr_fit_unfold [OF assms(1)])
qed

text \<open>Data on a line is fitted by that line, once two abscissae differ.\<close>

lemma lr_fit_exact:
  assumes "x1 \<in> set X" "x2 \<in> set X" "x1 \<noteq> x2"
  shows "lr_fit X (map (\<lambda>x. a * x + b) X) = \<lparr>coef = a, intercept = b\<rparr>"
proof -
  let ?n = "length X"
  define xo where "xo = (\<Sum>i<?n. X ! i) / real ?n"
  define sxx where "sxx = (\<Sum>i<?n. (X ! i - xo)\<^sup>2)"
  have n: "0 < ?n" using assms(1) by (cases X) auto
  have yo: "(\<Sum>i<?n. map (\<lambda>x. a * x + b) X ! i) / real ?n = a * xo + b"
    using n by (simp add: xo_def sum.distrib sum_distrib_left [symmetric] field_simps)
  have sxy: "(\<Sum>i<?n. (X ! i - xo) * (map (\<lambda>x. a * x + b) X ! i - (a * xo + b))) = a * sxx"
    by (simp add: sxx_def sum_distrib_left power2_eq_square algebra_simps)
  have "sxx \<noteq> 0"
  proof
    assume "sxx = 0"
    then have "\<forall>i\<in>{..<?n}. (X ! i - xo)\<^sup>2 = 0"
      unfolding sxx_def by (subst sum_nonneg_eq_0_iff [symmetric]) auto
    then have "\<forall>x\<in>set X. x = xo" by (auto simp: in_set_conv_nth)
    then have "x1 = xo" "x2 = xo" using assms(1,2) by blast+
    with assms(3) show False by simp
  qed
  then show ?thesis
    using yo sxy by (simp add: lr_fit_unfold [OF refl length_map] xo_def sxx_def)
qed

text \<open>Adding a constant to the targets moves the intercept by it and keeps the
  slope; the residuals do not change.\<close>

lemma lr_fit_shift:
  assumes "y \<noteq> []"
  shows "lr_fit X (map (\<lambda>v. v + c) y) = \<lparr>coef = coef (lr_fit X y), intercept = intercept (lr_fit X y) + c\<rparr>"
proof -
  have e: "(\<lambda>v. v + c - (np_mean y + c)) = (\<lambda>v. v - np_mean y)" by auto
  show ?thesis
    by (simp only: lr_fit_def Let_def np_mean_shift [OF assms] map_map comp_def e) simp
qed

lemma sq_dist_shift:
  "sq_dist (map (\<lambda>v. v + c) y) (map (\<lambda>v. v + c) z) = sq_dist y z"
  by (induction y z rule: list_induct2') (simp_all add: sq_dist_def)

end
