(* ===== verification/Trend.thy ===== *)
theory Trend
  imports Linear_Fit
begin

text \<open>
  The handler of \<open>POST /forecast/trend\<close> (\<open>forecast_trend\<close>, lines 13--27 of
  \<open>src/backend/app.py\<close>).  The request body holds \<open>series\<close>, a list of objects whose
  \<open>value\<close> field is read with default \<open>0\<close>.  An empty series answers the
  degenerate response; otherwise the handler fits a line over the indices
  \<open>0 .. n-1\<close>, returns the fitted values, the prediction at index \<open>n\<close> and the
  coefficient of determination, guarded against a zero total sum of squares.
\<close>

record trend_req =
  series :: "json_num list option"

record trend_resp =
  predicted :: "real list"
  next_val :: real
  r2 :: real

definition forecast_trend :: "trend_req \<Rightarrow> trend_resp" where
  "forecast_trend data =
     (let ser = get_default [] (series data) in
      if ser = [] then \<lparr>predicted = [], next_val = 0, r2 = 0\<rparr>
      else
        let y = map (get_default 0) ser;
            X = np_arange 0 (int (length y));
            model = lr_fit X y;
            yhat = map (lr_predict model) X;
            nxt = lr_predict model (real (length y));
            ss_res = sq_dist y yhat;
            ss_tot = (\<Sum>v\<leftarrow>y. (v - np_mean y)\<^sup>2);
            r2 = (if 0 < ss_tot then 1 - ss_res / ss_tot else 0)
        in \<lparr>predicted = yhat, next_val = nxt, r2 = r2\<rparr>)"

subsection \<open>Facts the handler's proofs share\<close>

abbreviation trend_values :: "trend_req \<Rightarrow> real list" where
  "trend_values data \<equiv> map (get_default 0) (get_default [] (series data))"

lemma trend_index_length [simp]: "length (np_arange 0 (int (length y))) = length y"
  by simp

text \<open>The flat line at the mean is a candidate of the least-squares problem, so the
  residual sum of squares never exceeds the total sum of squares.\<close>

lemma ss_res_le_ss_tot:
  "sq_dist y (map (lr_predict (lr_fit X y)) X) \<le> (\<Sum>v\<leftarrow>y. (v - np_mean y)\<^sup>2)"
  if "length X = length y"
proof -
  let ?flat = "\<lparr>coef = 0, intercept = np_mean y\<rparr>"
  have "sq_dist y (map (lr_predict ?flat) X) = (\<Sum>v\<leftarrow>y. (v - np_mean y)\<^sup>2)"
    using that by (simp add: sq_dist_def lr_predict_def sum_list_map2_nth sum_list_map_nth)
  with lr_fit_least_squares [OF that, of ?flat] show ?thesis by simp
qed

lemma forecast_trend_nonempty:
  assumes "get_default [] (series data) \<noteq> []"
  defines "y \<equiv> trend_values data"
  defines "X \<equiv> np_arange 0 (int (length y))"
  shows "forecast_trend data =
           \<lparr>predicted = map (lr_predict (lr_fit X y)) X,
            next_val = lr_predict (lr_fit X y) (real (length y)),
            r2 = (let ss_tot = (\<Sum>v\<leftarrow>y. (v - np_mean y)\<^sup>2)
                  in if 0 < ss_tot then 1 - sq_dist y (map (lr_predict (lr_fit X y)) X) / ss_tot
                     else 0)\<rparr>"
  using assms by (simp add: forecast_trend_def Let_def)

lemma forecast_trend_empty:
  "get_default [] (series data) = [] \<Longrightarrow>
   forecast_trend data = \<lparr>predicted = [], next_val = 0, r2 = 0\<rparr>"
  by (simp add: forecast_trend_def)

text \<open>Values on a line over at least two indices have a positive sum of squared
  deviations exactly when the line is not flat.\<close>

lemma sq_dev_line_pos:
  fixes a b :: real
  assumes "2 \<le> n"
  defines "y \<equiv> map (\<lambda>x. a * x + b) (map real [0..<n])"
  shows "0 < (\<Sum>v\<leftarrow>y. (v - np_mean y)\<^sup>2) \<longleftrightarrow> a \<noteq> 0"
  (is "0 < ?tot \<longleftrightarrow> _")
proof
  assume pos: "0 < ?tot"
  show "a \<noteq> 0"
  proof
    assume "a = 0"
    then have "y = replicate n b"
      by (intro nth_equalityI) (simp_all add: y_def)
    then have "?tot = 0"
      using assms(1) by (simp add: np_mean_replicate sum_list_replicate)
    with pos show False by simp
  qed
next
  assume a: "a \<noteq> 0"
  have "y ! 0 \<noteq> y ! 1" using a assms(1) by (simp add: y_def)
  moreover have m0: "y ! 0 \<in> set y" and m1: "y ! 1 \<in> set y"
    using assms(1) by (intro nth_mem; simp add: y_def)+
  ultimately have "?tot \<noteq> 0"
  proof (intro notI)
    assume "?tot = 0"
    then have all: "\<forall>v\<in>set y. v - np_mean y = 0"
      using sum_list_sq_eq_0 [where f = "\<lambda>v. v - np_mean y" and xs = y] by blast
    have "y ! 0 - np_mean y = 0" by (rule bspec [OF all m0])
    moreover have "y ! 1 - np_mean y = 0" by (rule bspec [OF all m1])
    moreover assume "y ! 0 \<noteq> y ! 1"
    ultimately show False by linarith
  qed
  then show "0 < ?tot" using sum_list_sq_nonneg [of "\<lambda>v. v - np_mean y" y] by linarith
qed

subsection \<open>Properties of the handler\<close>

text \<open>C4: The coefficient of determination always lies in \<open>[0, 1]\<close>.\<close>

theorem trend_r2_bounds: "0 \<le> r2 (forecast_trend data) \<and> r2 (forecast_trend data) \<le> 1"
proof (cases "get_default [] (series data) = []")
  case True
  then show ?thesis by (simp add: forecast_trend_empty)
next
  case False
  let ?y = "trend_values data"
  let ?X = "np_arange 0 (int (length ?y))"
  let ?res = "sq_dist ?y (map (lr_predict (lr_fit ?X ?y)) ?X)"
  let ?tot = "\<Sum>v\<leftarrow>?y. (v - np_mean ?y)\<^sup>2"
  have "?res \<le> ?tot" by (rule ss_res_le_ss_tot) simp
  moreover have "0 \<le> ?res" by simp
  ultimately show ?thesis
    using False by (simp add: forecast_trend_nonempty Let_def)
qed

text \<open>The output lists one fitted value per input point.\<close>

theorem trend_predicted_length:
  "length (predicted (forecast_trend data)) = length (get_default [] (series data))"
  by (cases "get_default [] (series data) = []") (simp_all add: forecast_trend_nonempty forecast_trend_empty)

text \<open>C7: A flat series is predicted flat: every fitted value and the next value are the
  constant, and \<open>r2\<close> falls back to \<open>0\<close> because the total sum of squares is zero.\<close>

theorem trend_constant:
  assumes "trend_values data = replicate n v" and "0 < n"
  shows "predicted (forecast_trend data) = replicate n v \<and> next_val (forecast_trend data) = v
         \<and> r2 (forecast_trend data) = 0"
proof -
  have ne: "get_default [] (series data) \<noteq> []"
    using assms by (metis length_map length_replicate list.size(3) less_irrefl)
  have fit: "lr_fit (np_arange 0 (int n)) (replicate n v) = \<lparr>coef = 0, intercept = v\<rparr>"
    using assms(2) by (simp add: lr_fit_replicate)
  have "(\<Sum>w\<leftarrow>replicate n v. (w - np_mean (replicate n v))\<^sup>2) = 0"
    using assms(2) by (simp add: np_mean_replicate sum_list_replicate)
  moreover have "map (lr_predict \<lparr>coef = 0, intercept = v\<rparr>) (np_arange 0 (int n)) = replicate n v"
    by (rule nth_equalityI) (simp_all add: lr_predict_def)
  ultimately show ?thesis
    using ne assms by (simp add: forecast_trend_nonempty fit lr_predict_def)
qed

text \<open>C6: A series on a line \<open>a * i + b\<close> with at least two points is reproduced exactly,
  extrapolated along the line, and scored \<open>r2 = 1\<close> unless the line is flat.\<close>

theorem trend_linear:
  assumes "trend_values data = map (\<lambda>i. a * real i + b) [0..<n]" and "2 \<le> n"
  shows "predicted (forecast_trend data) = trend_values data
         \<and> next_val (forecast_trend data) = a * real n + b
         \<and> r2 (forecast_trend data) = (if a = 0 then 0 else 1)"
proof -
  let ?X = "map real [0..<n]"
  have y: "trend_values data = map (\<lambda>x. a * x + b) ?X"
    using assms(1) by simp
  have len: "length (trend_values data) = n" using assms(1) by simp
  have ne: "get_default [] (series data) \<noteq> []"
    using len assms(2) by auto
  have X: "np_arange 0 (int (length (trend_values data))) = ?X"
    using len by (simp add: np_arange_0)
  have "0 \<in> set ?X" "1 \<in> set ?X" using assms(2) by (auto simp: image_iff)
  then have fit: "lr_fit ?X (map (\<lambda>x. a * x + b) ?X) = \<lparr>coef = a, intercept = b\<rparr>"
    by (rule lr_fit_exact) simp
  have hat: "map (lr_predict \<lparr>coef = a, intercept = b\<rparr>) ?X = map (\<lambda>x. a * x + b) ?X"
    by (simp add: lr_predict_def)
  have res: "sq_dist (map (\<lambda>x. a * x + b) ?X) (map (\<lambda>x. a * x + b) ?X) = 0"
    by (simp add: sq_dist_def zip_same_conv_map comp_def)
  let ?y = "map (\<lambda>x. a * x + b) ?X"
  let ?tot = "\<Sum>v\<leftarrow>?y. (v - np_mean ?y)\<^sup>2"
  have tot: "0 < ?tot \<longleftrightarrow> a \<noteq> 0"
    using assms(2) by (rule sq_dev_line_pos)
  have X': "np_arange 0 (int (length ?y)) = ?X"
    by (simp add: np_arange_0)
  from forecast_trend_nonempty [OF ne]
  have "forecast_trend data =
          \<lparr>predicted = ?y, next_val = lr_predict \<lparr>coef = a, intercept = b\<rparr> (real (length ?y)),
           r2 = (if 0 < ?tot then 1 - 0 / ?tot else 0)\<rparr>"
    by (simp only: y X' fit hat res Let_def)
  with tot y show ?thesis
    by (simp add: lr_predict_def)
qed

text \<open>C29: Adding a constant \<open>c\<close> to every value of a non-empty series adds \<open>c\<close>
  to every fitted value and to \<open>next\<close>, and leaves \<open>r2\<close> unchanged.\<close>

theorem trend_shift:
  fixes c :: real
  assumes "get_default [] (series data) \<noteq> []"
  defines "data' \<equiv> \<lparr>series = Some (map (\<lambda>v. Some (v + c)) (trend_values data))\<rparr>"
  shows "predicted (forecast_trend data') = map (\<lambda>v. v + c) (predicted (forecast_trend data))
         \<and> next_val (forecast_trend data') = next_val (forecast_trend data) + c
         \<and> r2 (forecast_trend data') = r2 (forecast_trend data)"
proof -
  let ?y = "trend_values data"
  let ?X = "np_arange 0 (int (length ?y))"
  have ne: "?y \<noteq> []" using assms(1) by simp
  have v: "trend_values data' = map (\<lambda>v. v + c) ?y"
    by (simp add: data'_def comp_def)
  have ne': "get_default [] (series data') \<noteq> []" using ne by (simp add: data'_def)
  have fit: "lr_fit ?X (map (\<lambda>v. v + c) ?y)
             = \<lparr>coef = coef (lr_fit ?X ?y), intercept = intercept (lr_fit ?X ?y) + c\<rparr>"
    using ne by (rule lr_fit_shift)
  have lm: "length (map (\<lambda>v. v + c) ?y) = length ?y" by (rule length_map)
  let ?m = "\<lparr>coef = coef (lr_fit ?X ?y), intercept = intercept (lr_fit ?X ?y) + c\<rparr>"
  have hat: "map (lr_predict ?m) ?X = map (\<lambda>v. v + c) (map (lr_predict (lr_fit ?X ?y)) ?X)"
    by (simp add: lr_predict_def)
  have tot: "(\<Sum>v\<leftarrow>map (\<lambda>v. v + c) ?y. (v - np_mean (map (\<lambda>v. v + c) ?y))\<^sup>2)
             = (\<Sum>v\<leftarrow>?y. (v - np_mean ?y)\<^sup>2)"
    using ne by (rule sq_dev_shift)
  have "forecast_trend data' =
          \<lparr>predicted = map (\<lambda>v. v + c) (map (lr_predict (lr_fit ?X ?y)) ?X),
           next_val = lr_predict ?m (real (length ?y)),
           r2 = (let ss_tot = (\<Sum>v\<leftarrow>?y. (v - np_mean ?y)\<^sup>2)
                 in if 0 < ss_tot then 1 - sq_dist ?y (map (lr_predict (lr_fit ?X ?y)) ?X) / ss_tot
                    else 0)\<rparr>"
    using forecast_trend_nonempty [OF ne', unfolded v lm]
    by (simp only: fit hat tot sq_dist_shift)
  then show ?thesis
    using forecast_trend_nonempty [OF assms(1)] by (simp add: lr_predict_def)
qed

subsection \<open>Witnesses\<close>

text \<open>The spec's scenario: the series \<open>10, 20, 30\<close> gives the line \<open>10 i + 10\<close>, the
  fitted values \<open>10, 20, 30\<close>, next value \<open>40\<close> and \<open>r2 = 1\<close>.\<close>

theorem trend_linear_witness:
  "trend_values \<lparr>series = Some [Some 10, Some 20, Some 30]\<rparr> = map (\<lambda>i. 10 * real i + 10) [0..<3]
   \<and> (2::nat) \<le> 3
   \<and> predicted (forecast_trend \<lparr>series = Some [Some 10, Some 20, Some 30]\<rparr>) = [10, 20, 30]
   \<and> next_val (forecast_trend \<lparr>series = Some [Some 10, Some 20, Some 30]\<rparr>) = 40
   \<and> r2 (forecast_trend \<lparr>series = Some [Some 10, Some 20, Some 30]\<rparr>) = 1"
  using trend_linear [of "\<lparr>series = Some [Some 10, Some 20, Some 30]\<rparr>" 10 10 3]
  by (simp add: upt_rec)

text \<open>A series of one point: the line is flat at that point and \<open>next\<close> repeats it.\<close>

theorem trend_constant_witness:
  "trend_values \<lparr>series = Some [Some 7]\<rparr> = replicate 1 7 \<and> (0::nat) < 1
   \<and> predicted (forecast_trend \<lparr>series = Some [Some 7]\<rparr>) = [7]
   \<and> next_val (forecast_trend \<lparr>series = Some [Some 7]\<rparr>) = 7
   \<and> r2 (forecast_trend \<lparr>series = Some [Some 7]\<rparr>) = 0"
  using trend_constant [of "\<lparr>series = Some [Some 7]\<rparr>" 1 7] by simp

theorem trend_shift_witness:
  "get_default [] (series \<lparr>series = Some [Some 10, Some 20, Some 30]\<rparr>) \<noteq> []
   \<and> next_val (forecast_trend \<lparr>series = Some (map (\<lambda>v. Some (v + 5))
        (trend_values \<lparr>series = Some [Some 10, Some 20, Some 30]\<rparr>))\<rparr>)
     = next_val (forecast_trend \<lparr>series = Some [Some 10, Some 20, Some 30]\<rparr>) + 5"
  using trend_shift [of "\<lparr>series = Some [Some 10, Some 20, Some 30]\<rparr>" 5] by simp

end
