(* ===== verification/Py_Format.thy ===== *)
theory Py_Format
  imports Py_Prelude
begin

text \<open>
  The text the handlers put into their JSON responses: \<open>"{:.0f}".format(x)\<close> in the
  demand handler's confidence string and \<open>f"{x:.1f}"\<close> in the compare handler's
  accuracy strings.  Python prints the digits of the value rounded half to even to
  the requested number of decimals, with a leading minus sign for a negative value
  (also when the rounded magnitude is zero: \<open>"{:.0f}".format(-0.3)\<close> is \<open>"-0"\<close>).
  The decimal printer \<open>nat_str\<close> comes with its parser and the round trip between them.
\<close>

definition digit_char :: "nat \<Rightarrow> char" where
  "digit_char d = ''0123456789'' ! d"

fun nat_str :: "nat \<Rightarrow> string" where
  "nat_str n = (if n < 10 then [digit_char n] else nat_str (n div 10) @ [digit_char (n mod 10)])"

definition fmt_f0 :: "real \<Rightarrow> string" where
  "fmt_f0 x =
     (if x < 0 then ''-'' @ nat_str (nat (py_round (- x))) else nat_str (nat (py_round x)))"

definition fmt_f1 :: "real \<Rightarrow> string" where
  "fmt_f1 x =
     (let k = nat (py_round (\<bar>x\<bar> * 10))
      in (if x < 0 then ''-'' else []) @ nat_str (k div 10) @ ''.'' @ [digit_char (k mod 10)])"

text \<open>The percent sign and the UTF-8 encoding of U+00B1, the plus-minus sign.\<close>

definition plus_minus :: string where
  "plus_minus = [char_of (194::nat), char_of (177::nat)]"

subsection \<open>Reading decimals back\<close>

definition digit_val :: "char \<Rightarrow> nat" where
  "digit_val c = of_char c - 48"

definition parse_nat :: "string \<Rightarrow> nat" where
  "parse_nat s = foldl (\<lambda>acc c. 10 * acc + digit_val c) 0 s"

definition is_dec_digit :: "char \<Rightarrow> bool" where
  "is_dec_digit c \<longleftrightarrow> (48::nat) \<le> of_char c \<and> of_char c \<le> (57::nat)"

text \<open>The reader of a one-decimal number: an optional minus sign, the digits of the
  integer part without leading zeros, a point and exactly one digit.  Any other text is
  rejected.\<close>

definition parse_f1 :: "string \<Rightarrow> real option" where
  "parse_f1 s =
     (let neg = (take 1 s = ''-'');
          body = (if neg then drop 1 s else s);
          ip = takeWhile (\<lambda>c. c \<noteq> CHR ''.'') body;
          rest = dropWhile (\<lambda>c. c \<noteq> CHR ''.'') body
      in if ip \<noteq> [] \<and> list_all is_dec_digit ip \<and> (ip = ''0'' \<or> (49::nat) \<le> of_char (hd ip))
            \<and> length rest = 2 \<and> is_dec_digit (rest ! 1)
         then let v = (real (parse_nat ip) * 10 + real (digit_val (rest ! 1))) / 10
              in Some (if neg then - v else v)
         else None)"

declare nat_str.simps [simp del]

subsection \<open>Printing and reading back\<close>

lemma digit_val_char [simp]: "d < 10 \<Longrightarrow> digit_val (digit_char d) = d"
  by (auto simp: less_Suc_eq numeral_eq_Suc digit_val_def digit_char_def)

lemma is_dec_digit_char [simp]: "d < 10 \<Longrightarrow> is_dec_digit (digit_char d)"
  by (auto simp: less_Suc_eq numeral_eq_Suc is_dec_digit_def digit_char_def)

lemma parse_nat_snoc [simp]: "parse_nat (s @ [c]) = 10 * parse_nat s + digit_val c"
  by (simp add: parse_nat_def)

lemma parse_nat_str: "parse_nat (nat_str n) = n"
proof (induction n rule: nat_str.induct)
  case (1 n)
  show ?case
  proof (cases "n < 10")
    case True
    then show ?thesis by (simp add: nat_str.simps [of n] parse_nat_def)
  next
    case False
    with "1.IH" show ?thesis by (simp add: nat_str.simps [of n])
  qed
qed

lemma nat_str_digits: "\<forall>c \<in> set (nat_str n). is_dec_digit c"
proof (induction n rule: nat_str.induct)
  case (1 n)
  then show ?case by (subst nat_str.simps) simp
qed

lemma nat_str_not_Nil [simp]: "nat_str n \<noteq> []"
  by (subst nat_str.simps) simp

lemma nat_str_inj: "nat_str m = nat_str n \<longleftrightarrow> m = n"
  by (metis parse_nat_str)

lemma filter_digits_nat_str [simp]: "filter is_dec_digit (nat_str n) = nat_str n"
  using nat_str_digits [of n] by (simp add: filter_id_conv)

lemma not_digit_dot [simp]: "\<not> is_dec_digit (CHR ''.'')" "\<not> is_dec_digit (CHR ''-'')"
  by (simp_all add: is_dec_digit_def)

lemma nat_str_hd_digit: "take 1 (nat_str n) \<noteq> ''-''"
proof
  assume "take 1 (nat_str n) = ''-''"
  then obtain cs where "nat_str n = CHR ''-'' # cs"
    by (cases "nat_str n") auto
  with nat_str_digits [of n] show False by simp
qed

lemma of_char_digit_char [simp]: "d < 10 \<Longrightarrow> of_char (digit_char d) = 48 + d"
  by (auto simp: less_Suc_eq numeral_eq_Suc digit_char_def)

text \<open>The printer writes no leading zero.\<close>

lemma nat_str_canonical: "nat_str n = ''0'' \<or> (49::nat) \<le> of_char (hd (nat_str n))"
proof (induction n rule: nat_str.induct)
  case (1 n)
  show ?case
  proof (cases "n < 10")
    case True
    then show ?thesis
      by (cases "n = 0") (simp add: nat_str.simps [of 0] digit_char_def, simp add: nat_str.simps [of n])
  next
    case False
    then have "nat_str (n div 10) \<noteq> ''0''"
      using nat_str_inj [of "n div 10" 0] by (simp add: nat_str.simps [of 0] digit_char_def)
    with False "1.IH" show ?thesis
      by (simp add: nat_str.simps [of n] hd_append)
  qed
qed

lemma nat_str_no_dot: "c \<in> set (nat_str n) \<Longrightarrow> c \<noteq> CHR ''.''"
  using nat_str_digits [of n] not_digit_dot(1) by auto

text \<open>The text of a non-negative number with \<open>k\<close> tenths reads back as \<open>k / 10\<close>.\<close>

lemma parse_f1_digits:
  "parse_f1 (nat_str (k div 10) @ ''.'' @ [digit_char (k mod 10)]) = Some (real k / 10)"
proof -
  let ?s = "nat_str (k div 10) @ [CHR ''.'', digit_char (k mod 10)]"
  have t: "take 1 ?s \<noteq> ''-''"
    using nat_str_hd_digit [of "k div 10"] by (cases "nat_str (k div 10)") simp_all
  have ip: "takeWhile (\<lambda>c. c \<noteq> CHR ''.'') ?s = nat_str (k div 10)"
    by (simp add: takeWhile_append2 nat_str_no_dot)
  have rest: "dropWhile (\<lambda>c. c \<noteq> CHR ''.'') ?s = [CHR ''.'', digit_char (k mod 10)]"
    by (simp add: dropWhile_append2 nat_str_no_dot)
  have "real (k div 10) * 10 + real (k mod 10) = real k"
    by (metis div_mult_mod_eq of_nat_add of_nat_mult mult.commute of_nat_numeral)
  then show ?thesis
    using t nat_str_digits [of "k div 10"] nat_str_canonical [of "k div 10"]
    by (simp add: parse_f1_def Let_def ip rest parse_nat_str list_all_iff)
qed

lemma parse_f1_minus:
  "take 1 s \<noteq> ''-'' \<Longrightarrow> parse_f1 (CHR ''-'' # s) = map_option uminus (parse_f1 s)"
  by (simp add: parse_f1_def Let_def)

lemma fmt_f1_parse: "parse_f1 (fmt_f1 x) = Some (of_int (py_round (x * 10)) / 10)"
proof -
  define k where "k = nat (py_round (\<bar>x\<bar> * 10))"
  let ?s = "nat_str (k div 10) @ [CHR ''.'', digit_char (k mod 10)]"
  have k: "int k = py_round (\<bar>x\<bar> * 10)"
    by (simp add: k_def py_round_nonneg)
  have p: "parse_f1 ?s = Some (real k / 10)"
    using parse_f1_digits [of k] by simp
  show ?thesis
  proof (cases "x < 0")
    case True
    have r: "py_round (x * 10) = - int k"
      using True k py_round_neg [of "x * 10"] by simp
    have f: "fmt_f1 x = CHR ''-'' # ?s"
      using True by (simp add: fmt_f1_def k_def Let_def)
    have "take 1 ?s \<noteq> ''-''"
      using nat_str_hd_digit [of "k div 10"] by (cases "nat_str (k div 10)") simp_all
    then show ?thesis
      by (simp add: f parse_f1_minus p r)
  next
    case False
    have r: "py_round (x * 10) = int k" using False k by simp
    have f: "fmt_f1 x = ?s"
      using False by (simp add: fmt_f1_def k_def Let_def)
    show ?thesis
      by (simp add: f p r)
  qed
qed

text \<open>C21: Round trip: the one-decimal text of every value is accepted by the strict reader
  (sign, integer digits without leading zeros, a point, one digit) and reads back as
  the value rounded half to even to one decimal.\<close>

theorem parse_fmt_f1: "parse_f1 (fmt_f1 x) = Some (of_int (py_round (x * 10)) / 10)"
  by (rule fmt_f1_parse)

text \<open>\<open>200/3\<close> prints as \<open>66.7\<close>; \<open>-0.25\<close> prints as \<open>-0.2\<close> (the tie goes to the
  even digit); text without the point, with two decimals or with a leading zero is
  rejected.\<close>

lemma fmt_f1_examples:
  "fmt_f1 (200 / 3) = ''66.7'' \<and> parse_f1 ''66.7'' = Some (667 / 10)
   \<and> fmt_f1 (- 0.25) = ''-0.2'' \<and> parse_f1 ''-0.2'' = Some (- 1 / 5)"
  by (simp add: fmt_f1_def nat_str.simps digit_char_def py_round_def Let_def parse_f1_def
      parse_nat_def digit_val_def is_dec_digit_def)

lemma parse_f1_rejects:
  "parse_f1 ''667'' = None \<and> parse_f1 ''66.70'' = None \<and> parse_f1 ''066.7'' = None"
  by (simp add: parse_f1_def is_dec_digit_def)

end
