(* ===== verification/Demand.thy ===== *)
theory Demand
  imports Linear_Fit Py_Format
begin

text \<open>
  The handler of \<open>POST /forecast/demand\<close> (\<open>forecast_demand\<close>, lines 29--55 of
  \<open>src/backend/app.py\<close>).  The body holds \<open>items\<close>, objects whose \<open>units\<close> field
  defaults to \<open>0\<close>, and \<open>horizon\<close>, read with \<open>int(...)\<close> and default \<open>3\<close>.  The
  handler fits a line over the observed indices and asks the model for the
  \<open>horizon\<close> indices after them.  When \<open>int(horizon) \<le> 0\<close> that index array is
  empty and scikit-learn's \<open>predict\<close> raises \<open>ValueError\<close>, so Flask answers 500:
  the handler's result is \<open>py_error + demand_resp\<close>, \<open>Inl\<close> the exception.
  Otherwise it sums the predictions into a point forecast and builds a band from the
  population standard deviation of the in-sample residuals, scaled by
  \<open>1.96 * max(1, horizon)\<close>.  The lower bound is clamped at \<open>0\<close> and the upper
  bound at the lower one; all three are rounded half to even.  The confidence string
  is \<open>"\<plusminus>P%"\<close>, \<open>P\<close> the relative band in percent, capped at \<open>100\<close>, and \<open>0\<close>
  when the point forecast is exactly \<open>0\<close>.  An empty item list is answered before any
  prediction, whatever the horizon, and its response has no \<open>future\<close> key
  (\<open>future = None\<close>).
\<close>

record demand_req =
  items :: "json_num list option"
  horizon :: json_num

record demand_resp =
  point :: int
  lower :: int
  upper :: int
  confidence :: string
  future :: "real list option"

text \<open>Line 42 calls \<open>predict\<close> on the observed indices, which are not empty in that
  branch; there it is the line evaluated at every index.\<close>

definition forecast_demand :: "demand_req \<Rightarrow> py_error + demand_resp" where
  "forecast_demand data =
     (let its = get_default [] (items data);
          h = py_int (get_default 3 (horizon data))
      in if its = [] then
           Inr \<lparr>point = 0, lower = 0, upper = 0, confidence = plus_minus @ ''0%'', future = None\<rparr>
         else
           let y = map (get_default 0) its;
               X = np_arange 0 (int (length y));
               model = lr_fit X y;
               future_idx = np_arange (int (length y)) (int (length y) + h)
           in case lr_predict_batch model future_idx of
                Inl e \<Rightarrow> Inl e
              | Inr fut \<Rightarrow>
                  let pt = sum_list fut;
                      yhat = map (lr_predict model) X;
                      resid = map2 (-) y yhat;
                      std = np_std resid;
                      band = 1.96 * std * of_int (max 1 h);
                      lo = max 0 (pt - band);
                      up = max lo (pt + band);
                      conf = plus_minus
                             @ fmt_f0 (if pt = 0 then 0 else min 100 (band / max pt 0.000001 * 100))
                             @ ''%''
                  in Inr \<lparr>point = py_round pt, lower = py_round lo, upper = py_round up,
                          confidence = conf, future = Some fut\<rparr>)"

subsection \<open>The quantities of a non-empty request\<close>

abbreviation demand_values :: "demand_req \<Rightarrow> real list" where
  "demand_values data \<equiv> map (get_default 0) (get_default [] (items data))"

abbreviation demand_horizon :: "demand_req \<Rightarrow> int" where
  "demand_horizon data \<equiv> py_int (get_default 3 (horizon data))"

definition demand_model :: "demand_req \<Rightarrow> lin_model" where
  "demand_model data =
     lr_fit (np_arange 0 (int (length (demand_values data)))) (demand_values data)"

definition demand_future :: "demand_req \<Rightarrow> py_error + real list" where
  "demand_future data =
     lr_predict_batch (demand_model data)
       (np_arange (int (length (demand_values data)))
                  (int (length (demand_values data)) + demand_horizon data))"

definition demand_resid :: "demand_req \<Rightarrow> real list" where
  "demand_resid data =
     map2 (-) (demand_values data)
       (map (lr_predict (demand_model data)) (np_arange 0 (int (length (demand_values data)))))"

definition demand_band :: "demand_req \<Rightarrow> real" where
  "demand_band data = 1.96 * np_std (demand_resid data) * of_int (max 1 (demand_horizon data))"

definition conf_percent :: "real \<Rightarrow> real \<Rightarrow> real" where
  "conf_percent pt band = (if pt = 0 then 0 else min 100 (band / max pt 0.000001 * 100))"

text \<open>The response built from the future predictions \<open>fut\<close> (lines 41--55).\<close>

definition demand_answer :: "demand_req \<Rightarrow> real list \<Rightarrow> demand_resp" where
  "demand_answer data fut =
     (let pt = sum_list fut; band = demand_band data
      in \<lparr>point = py_round pt,
          lower = py_round (max 0 (pt - band)),
          upper = py_round (max (max 0 (pt - band)) (pt + band)),
          confidence = plus_minus @ fmt_f0 (conf_percent pt band) @ ''%'',
          future = Some fut\<rparr>)"

lemma forecast_demand_empty:
  "get_default [] (items data) = [] \<Longrightarrow>
   forecast_demand data =
     Inr \<lparr>point = 0, lower = 0, upper = 0, confidence = plus_minus @ ''0%'', future = None\<rparr>"
  by (simp add: forecast_demand_def Let_def)

lemma forecast_demand_nonempty:
  "get_default [] (items data) \<noteq> [] \<Longrightarrow>
   forecast_demand data =
     (case demand_future data of Inl e \<Rightarrow> Inl e | Inr fut \<Rightarrow> Inr (demand_answer data fut))"
  by (simp add: forecast_demand_def demand_future_def demand_answer_def demand_band_def
      demand_resid_def demand_model_def conf_percent_def Let_def split: sum.split)

text \<open>The predictions exist exactly when the horizon is positive; they are the fitted line
  at the indices \<open>n .. n+h-1\<close>.\<close>

lemma demand_future_ok:
  assumes "0 < demand_horizon data"
  shows "demand_future data =
           Inr (map (\<lambda>k. coef (demand_model data) * (real (length (demand_values data)) + real k)
                        + intercept (demand_model data))
                 [0..<nat (demand_horizon data)])"
proof -
  have "np_arange (int (length (demand_values data)))
          (int (length (demand_values data)) + demand_horizon data) \<noteq> []"
    using assms by (simp add: length_0_conv [symmetric] del: length_0_conv)
  then show ?thesis
    by (simp add: demand_future_def lr_predict_batch_def np_arange_shift lr_predict_def comp_def)
qed

lemma demand_future_error:
  "demand_horizon data \<le> 0 \<Longrightarrow>
   demand_future data = Inl (ValueError ''Found array with 0 sample(s)'')"
  by (simp add: demand_future_def lr_predict_batch_def np_arange_empty)

lemma forecast_demand_Inr:
  assumes "forecast_demand data = Inr r" and "get_default [] (items data) \<noteq> []"
  obtains fut where "demand_future data = Inr fut" and "r = demand_answer data fut"
  using assms by (cases "demand_future data") (simp_all add: forecast_demand_nonempty)

lemma demand_band_nonneg: "0 \<le> demand_band data"
  by (simp add: demand_band_def)

lemma fmt_f0_nonneg: "0 \<le> x \<Longrightarrow> fmt_f0 x = nat_str (nat (py_round x))"
  by (simp add: fmt_f0_def)

lemma conf_percent_range: "0 \<le> band \<Longrightarrow> 0 \<le> conf_percent pt band \<and> conf_percent pt band \<le> 100"
  by (simp add: conf_percent_def)

text \<open>The error of the handler: exactly the non-empty requests with \<open>int(horizon) \<le> 0\<close>
  fail, with scikit-learn's \<open>ValueError\<close>.\<close>

lemma demand_error_iff:
  "forecast_demand data = Inl e \<longleftrightarrow>
     get_default [] (items data) \<noteq> [] \<and> demand_horizon data \<le> 0
     \<and> e = ValueError ''Found array with 0 sample(s)''"
proof (cases "get_default [] (items data) = []")
  case True
  then show ?thesis by (simp add: forecast_demand_empty)
next
  case False
  show ?thesis
  proof (cases "0 < demand_horizon data")
    case True
    then show ?thesis using False by (simp add: forecast_demand_nonempty demand_future_ok)
  next
    case nonpos: False
    then show ?thesis using False by (auto simp: forecast_demand_nonempty demand_future_error)
  qed
qed

subsection \<open>Properties of the handler\<close>

text \<open>C1: The reported interval of every answered request is well formed:
  \<open>0 \<le> lower \<le> upper\<close>, negative unit values included.\<close>

theorem demand_bounds:
  assumes "forecast_demand data = Inr r"
  shows "0 \<le> lower r \<and> lower r \<le> upper r"
proof (cases "get_default [] (items data) = []")
  case True
  then show ?thesis using assms by (auto simp: forecast_demand_empty)
next
  case False
  with assms obtain fut where "r = demand_answer data fut"
    by (rule forecast_demand_Inr)
  then show ?thesis
    by (simp add: demand_answer_def Let_def py_round_nonneg py_round_mono)
qed

text \<open>C14: A non-negative point forecast lies inside the reported interval.\<close>

theorem demand_point_within:
  assumes "forecast_demand data = Inr r" and "0 \<le> point r"
  shows "lower r \<le> point r \<and> point r \<le> upper r"
proof (cases "get_default [] (items data) = []")
  case True
  then show ?thesis using assms by (auto simp: forecast_demand_empty)
next
  case False
  with assms(1) obtain fut where r: "r = demand_answer data fut"
    by (rule forecast_demand_Inr)
  define pt where "pt = sum_list fut"
  define band where "band = demand_band data"
  have b: "0 \<le> band" by (simp add: band_def demand_band_nonneg)
  have p: "0 \<le> py_round pt"
    using assms(2) by (simp add: r demand_answer_def Let_def pt_def)
  have lo: "py_round (max 0 (pt - band)) \<le> py_round pt"
  proof (cases "0 \<le> pt")
    case True
    with b show ?thesis by (intro py_round_mono) simp
  next
    case False
    with b p show ?thesis by simp
  qed
  have up: "py_round pt \<le> py_round (max (max 0 (pt - band)) (pt + band))"
    using b by (intro py_round_mono) simp
  from lo up show ?thesis
    by (simp add: r demand_answer_def Let_def pt_def band_def)
qed

text \<open>C11: The empty request is answered with the degenerate response and no
  \<open>future\<close> key, whatever the horizon, before any prediction is made.\<close>

theorem demand_empty:
  assumes "get_default [] (items data) = []"
  shows "forecast_demand data =
           Inr \<lparr>point = 0, lower = 0, upper = 0, confidence = plus_minus @ ''0%'', future = None\<rparr>"
  using assms by (rule forecast_demand_empty)

text \<open>C15: The confidence string of every answer is the plus-minus sign, a whole
  percentage from 0 to 100 and a percent sign.\<close>

theorem demand_confidence_range:
  assumes "forecast_demand data = Inr r"
  shows "\<exists>p \<le> 100. confidence r = plus_minus @ nat_str p @ ''%''"
proof (cases "get_default [] (items data) = []")
  case True
  then show ?thesis
    using assms by (intro exI [of _ 0]) (auto simp: forecast_demand_empty nat_str.simps digit_char_def)
next
  case False
  with assms obtain fut where r: "r = demand_answer data fut"
    by (rule forecast_demand_Inr)
  define c where "c = conf_percent (sum_list fut) (demand_band data)"
  have c: "0 \<le> c \<and> c \<le> 100"
    unfolding c_def by (rule conf_percent_range) (simp add: demand_band_nonneg)
  then have "nat (py_round c) \<le> 100"
    using py_round_le_int [of c 100] by simp
  with c show ?thesis
    by (intro exI [of _ "nat (py_round c)"]) (simp add: r demand_answer_def Let_def fmt_f0_nonneg c_def)
qed

text \<open>C18: For a positive horizon \<open>h\<close> the request is answered; the future predictions
  continue the fitted line at the indices \<open>n .. n+h-1\<close>, and the point forecast is
  their rounded sum, in closed form.\<close>

theorem demand_point_closed_form:
  assumes "get_default [] (items data) \<noteq> []" and "demand_horizon data = int h" and "0 < h"
  defines "c \<equiv> coef (demand_model data)" and "b \<equiv> intercept (demand_model data)"
    and "n \<equiv> length (demand_values data)"
  shows "\<exists>r. forecast_demand data = Inr r
           \<and> future r = Some (map (\<lambda>k. c * (real n + real k) + b) [0..<h])
           \<and> point r = py_round (real h * (c * real n + b) + c * (real h * (real h - 1) / 2))"
proof -
  have f: "demand_future data = Inr (map (\<lambda>k. c * (real n + real k) + b) [0..<h])"
    using assms(2,3) demand_future_ok [of data] by (simp add: c_def b_def n_def)
  have "sum_list (map (\<lambda>k. c * (real n + real k) + b) [0..<h])
        = real h * (c * real n + b) + c * sum_list (map real [0..<h])"
    by (induction h) (simp_all add: algebra_simps)
  then have "sum_list (map (\<lambda>k. c * (real n + real k) + b) [0..<h])
             = real h * (c * real n + b) + c * (real h * (real h - 1) / 2)"
    by (simp add: sum_list_upt_real)
  with f assms(1) show ?thesis
    by (simp add: forecast_demand_nonempty demand_answer_def Let_def)
qed

text \<open>C19: Units on a line leave no residual: the band is \<open>0\<close>, the interval of the
  answer collapses to the clamped point forecast and the confidence is
  \<open>"\<plusminus>0%"\<close>.\<close>

theorem demand_perfect_fit:
  assumes "demand_values data = map (\<lambda>i. a * real i + b) [0..<n]" and "2 \<le> n"
    and "forecast_demand data = Inr r"
  shows "demand_model data = \<lparr>coef = a, intercept = b\<rparr>
         \<and> lower r = upper r
         \<and> (\<exists>fs. future r = Some fs \<and> lower r = py_round (max 0 (sum_list fs)))
         \<and> confidence r = plus_minus @ ''0%''"
proof -
  let ?X = "map real [0..<n]"
  have len: "length (demand_values data) = n" using assms(1) by simp
  have ne: "get_default [] (items data) \<noteq> []" using len assms(2) by auto
  with assms(3) obtain fut where r: "r = demand_answer data fut"
    by (rule forecast_demand_Inr)
  have X: "np_arange 0 (int (length (demand_values data))) = ?X"
    using len by (simp add: np_arange_0)
  have y: "demand_values data = map (\<lambda>x. a * x + b) ?X" using assms(1) by simp
  have "0 \<in> set ?X" "1 \<in> set ?X" using assms(2) by (auto simp: image_iff)
  then have fit: "lr_fit ?X (map (\<lambda>x. a * x + b) ?X) = \<lparr>coef = a, intercept = b\<rparr>"
    by (rule lr_fit_exact) simp
  have m: "demand_model data = \<lparr>coef = a, intercept = b\<rparr>"
    unfolding demand_model_def X by (simp only: y fit)
  have "demand_resid data = replicate n 0"
    unfolding demand_resid_def m X
    by (rule nth_equalityI) (simp_all add: assms(1) lr_predict_def)
  then have band: "demand_band data = 0" by (simp add: demand_band_def)
  show ?thesis
    using m by (simp add: r demand_answer_def Let_def band conf_percent_def fmt_f0_def
        nat_str.simps digit_char_def)
qed

text \<open>C27: An answered non-empty request has \<open>int(horizon)\<close> future predictions, at
  least one: \<open>int\<close> truncates towards zero, so a horizon of \<open>2.7\<close> gives two.\<close>

theorem demand_future_length:
  assumes "forecast_demand data = Inr r" and "get_default [] (items data) \<noteq> []"
  shows "\<exists>fs. future r = Some fs \<and> 0 < length fs
              \<and> int (length fs) = py_int (get_default 3 (horizon data))"
proof -
  obtain fut where f: "demand_future data = Inr fut" and r: "r = demand_answer data fut"
    using assms by (rule forecast_demand_Inr)
  have pos: "0 < demand_horizon data"
  proof (rule ccontr)
    assume "\<not> 0 < demand_horizon data"
    then have "demand_future data = Inl (ValueError ''Found array with 0 sample(s)'')"
      by (simp add: demand_future_error)
    with f show False by simp
  qed
  with f have "fut = map (\<lambda>k. coef (demand_model data) * (real (length (demand_values data)) + real k)
                        + intercept (demand_model data)) [0..<nat (demand_horizon data)]"
    by (simp add: demand_future_ok)
  with pos show ?thesis
    by (simp add: r demand_answer_def Let_def)
qed

text \<open>C28: An answer whose predictions sum to a negative point forecast, with a band of
  at least \<open>1e-6\<close>, reports the confidence \<open>"\<plusminus>100%"\<close>: \<open>max(point, 1e-6)\<close>
  divides the band by \<open>1e-6\<close>.\<close>

theorem demand_negative_point_confidence:
  assumes "forecast_demand data = Inr r" and "future r = Some fs" and "sum_list fs < 0"
    and "0.000001 \<le> demand_band data"
  shows "confidence r = plus_minus @ ''100%''"
proof -
  have ne: "get_default [] (items data) \<noteq> []"
    using assms(1,2) by (auto simp: forecast_demand_empty)
  with assms(1) obtain fut where r: "r = demand_answer data fut"
    by (rule forecast_demand_Inr)
  have fs: "fs = fut" using assms(2) by (simp add: r demand_answer_def Let_def)
  have "100 \<le> demand_band data / 0.000001 * 100" using assms(4) by simp
  then have "conf_percent (sum_list fut) (demand_band data) = 100"
    using assms(3) fs by (simp add: conf_percent_def)
  then show ?thesis
    by (simp add: r demand_answer_def Let_def fmt_f0_def nat_str.simps digit_char_def)
qed

subsection \<open>Witnesses\<close>

text \<open>Units \<open>1, 2\<close> with horizon \<open>2\<close>: the line \<open>i + 1\<close> predicts \<open>3, 4\<close>, the
  point forecast is \<open>7\<close>, the band is \<open>0\<close>.\<close>

lemma demand_example_eval:
  "forecast_demand \<lparr>items = Some [Some 1, Some 2], horizon = Some 2\<rparr>
   = Inr \<lparr>point = 7, lower = 7, upper = 7, confidence = plus_minus @ ''0%'', future = Some [3, 4]\<rparr>"
proof -
  let ?d = "\<lparr>items = Some [Some 1, Some 2], horizon = Some 2\<rparr>"
  have r: "demand_resid ?d = [0, 0]" by code_simp
  have f: "demand_future ?d = Inr [3, 4]" by code_simp
  show ?thesis
    by (simp add: forecast_demand_nonempty f demand_answer_def demand_band_def r np_std_def
        np_mean_def conf_percent_def fmt_f0_def nat_str.simps digit_char_def)
qed

theorem demand_bounds_witness:
  "forecast_demand \<lparr>items = Some [Some 1, Some 2], horizon = Some 2\<rparr>
     = Inr \<lparr>point = 7, lower = 7, upper = 7, confidence = plus_minus @ ''0%'', future = Some [3, 4]\<rparr>
   \<and> 0 \<le> (7::int) \<and> (7::int) \<le> 7"
  using demand_bounds [of "\<lparr>items = Some [Some 1, Some 2], horizon = Some 2\<rparr>"]
  by (simp add: demand_example_eval)

theorem demand_point_within_witness:
  "forecast_demand \<lparr>items = Some [Some 1, Some 2], horizon = Some 2\<rparr>
     = Inr \<lparr>point = 7, lower = 7, upper = 7, confidence = plus_minus @ ''0%'', future = Some [3, 4]\<rparr>
   \<and> 0 \<le> (7::int) \<and> (7::int) \<le> 7 \<and> (7::int) \<le> 7"
  using demand_point_within [of "\<lparr>items = Some [Some 1, Some 2], horizon = Some 2\<rparr>"]
  by (simp add: demand_example_eval)

theorem demand_confidence_range_witness:
  "forecast_demand \<lparr>items = Some [Some 1, Some 2], horizon = Some 2\<rparr>
     = Inr \<lparr>point = 7, lower = 7, upper = 7, confidence = plus_minus @ ''0%'', future = Some [3, 4]\<rparr>
   \<and> (\<exists>p \<le> 100. plus_minus @ ''0%'' = plus_minus @ nat_str p @ ''%'')"
  using demand_confidence_range [of "\<lparr>items = Some [Some 1, Some 2], horizon = Some 2\<rparr>"]
  by (simp add: demand_example_eval)

theorem demand_empty_witness:
  "get_default [] (items \<lparr>items = None, horizon = Some 5\<rparr>) = []
   \<and> forecast_demand \<lparr>items = None, horizon = Some 5\<rparr>
     = Inr \<lparr>point = 0, lower = 0, upper = 0, confidence = plus_minus @ ''0%'', future = None\<rparr>"
  using demand_empty [of "\<lparr>items = None, horizon = Some 5\<rparr>"] by simp

theorem demand_point_closed_form_witness:
  "get_default [] (items \<lparr>items = Some [Some 1, Some 2], horizon = Some 2\<rparr>) \<noteq> []
   \<and> demand_horizon \<lparr>items = Some [Some 1, Some 2], horizon = Some 2\<rparr> = int 2 \<and> (0::nat) < 2
   \<and> point (projr (forecast_demand \<lparr>items = Some [Some 1, Some 2], horizon = Some 2\<rparr>)) = 7"
proof -
  let ?d = "\<lparr>items = Some [Some 1, Some 2], horizon = Some 2\<rparr>"
  have m: "demand_model ?d = \<lparr>coef = 1, intercept = 1\<rparr>" by code_simp
  from demand_point_closed_form [of ?d 2] show ?thesis
    by (auto simp: m py_int_def)
qed

theorem demand_perfect_fit_witness:
  "demand_values \<lparr>items = Some [Some 1, Some 2], horizon = Some 2\<rparr> = map (\<lambda>i. 1 * real i + 1) [0..<2]
   \<and> (2::nat) \<le> 2
   \<and> forecast_demand \<lparr>items = Some [Some 1, Some 2], horizon = Some 2\<rparr>
     = Inr \<lparr>point = 7, lower = 7, upper = 7, confidence = plus_minus @ ''0%'', future = Some [3, 4]\<rparr>
   \<and> demand_model \<lparr>items = Some [Some 1, Some 2], horizon = Some 2\<rparr> = \<lparr>coef = 1, intercept = 1\<rparr>"
  using demand_perfect_fit [of "\<lparr>items = Some [Some 1, Some 2], horizon = Some 2\<rparr>" 1 1 2]
  by (simp add: upt_rec demand_example_eval)

text \<open>Units \<open>1, 2\<close> with horizon \<open>2.7\<close>: \<open>int\<close> truncates to \<open>2\<close>, two
  predictions \<open>3, 4\<close>.\<close>

theorem demand_future_length_witness:
  "forecast_demand \<lparr>items = Some [Some 1, Some 2], horizon = Some 2.7\<rparr>
     = Inr \<lparr>point = 7, lower = 7, upper = 7, confidence = plus_minus @ ''0%'', future = Some [3, 4]\<rparr>
   \<and> get_default [] (items \<lparr>items = Some [Some 1, Some 2], horizon = Some 2.7\<rparr>) \<noteq> []
   \<and> py_int (get_default 3 (horizon \<lparr>items = Some [Some 1, Some 2], horizon = Some 2.7\<rparr>)) = 2"
proof -
  let ?d = "\<lparr>items = Some [Some 1, Some 2], horizon = Some 2.7\<rparr>"
  have r: "demand_resid ?d = [0, 0]" by code_simp
  have f: "demand_future ?d = Inr [3, 4]" by code_simp
  have e: "forecast_demand ?d
     = Inr \<lparr>point = 7, lower = 7, upper = 7, confidence = plus_minus @ ''0%'', future = Some [3, 4]\<rparr>"
    by (simp add: forecast_demand_nonempty f demand_answer_def demand_band_def r np_std_def
        np_mean_def conf_percent_def fmt_f0_def nat_str.simps digit_char_def)
  have "\<exists>fs. future \<lparr>point = 7, lower = 7, upper = 7, confidence = plus_minus @ ''0%'',
                     future = Some [3, 4]\<rparr> = Some fs
            \<and> 0 < length fs \<and> int (length fs) = py_int (get_default 3 (horizon ?d))"
    using e by (intro demand_future_length [of ?d]) simp_all
  with e show ?thesis by simp
qed

text \<open>The standard deviation of the residuals \<open>-5/6, 5/3, -5/6\<close> of the units
  \<open>1, 3, 0\<close> is \<open>sqrt(25/18)\<close>, between \<open>1.1\<close> and \<open>1.2\<close>.\<close>

lemma sqrt_25_18_bounds: "1.1 \<le> sqrt (25/18 :: real) \<and> sqrt (25/18 :: real) \<le> 1.2"
proof
  show "1.1 \<le> sqrt (25/18 :: real)" by (rule real_le_rsqrt) (simp add: power2_eq_square)
  have s: "sqrt (1.44 :: real) = 1.2"
    by (rule real_sqrt_unique) (simp_all add: power2_eq_square)
  have "sqrt (25/18 :: real) \<le> sqrt 1.44"
    by (rule real_sqrt_le_mono) simp
  then show "sqrt (25/18 :: real) \<le> 1.2"
    by (simp only: s)
qed

text \<open>Units \<open>1, 3, 0\<close> with horizon \<open>3\<close>: the predictions \<open>1/3, -1/6, -2/3\<close> sum
  to \<open>-1/2\<close>, which rounds (half to even) to the point forecast \<open>0\<close>, yet the
  confidence is \<open>"\<plusminus>100%"\<close>.\<close>

theorem demand_negative_point_confidence_witness:
  "forecast_demand \<lparr>items = Some [Some 1, Some 3, None], horizon = Some 3\<rparr>
     = Inr (demand_answer \<lparr>items = Some [Some 1, Some 3, None], horizon = Some 3\<rparr> [1/3, -1/6, -2/3])
   \<and> sum_list [1/3, -1/6, -2/3 :: real] < 0
   \<and> 0.000001 \<le> demand_band \<lparr>items = Some [Some 1, Some 3, None], horizon = Some 3\<rparr>
   \<and> point (demand_answer \<lparr>items = Some [Some 1, Some 3, None], horizon = Some 3\<rparr> [1/3, -1/6, -2/3]) = 0
   \<and> confidence (demand_answer \<lparr>items = Some [Some 1, Some 3, None], horizon = Some 3\<rparr> [1/3, -1/6, -2/3])
       = plus_minus @ ''100%''"
proof -
  let ?d = "\<lparr>items = Some [Some 1, Some 3, None], horizon = Some 3\<rparr>"
  have r: "demand_resid ?d = [-5/6, 5/3, -5/6]" by code_simp
  have f: "demand_future ?d = Inr [1/3, -1/6, -2/3]" by code_simp
  have e: "forecast_demand ?d = Inr (demand_answer ?d [1/3, -1/6, -2/3])"
    by (simp add: forecast_demand_nonempty f)
  have "np_std (demand_resid ?d) = sqrt (25/18)"
    by (simp add: r np_std_def np_mean_def power2_eq_square)
  then have b: "0.000001 \<le> demand_band ?d"
    using sqrt_25_18_bounds by (simp add: demand_band_def py_int_def)
  have p: "py_round (- (1 / 2)) = 0" by (simp add: py_round_def)
  have fut: "future (demand_answer ?d [1/3, -1/6, -2/3]) = Some [1/3, -1/6, -2/3]"
    by (simp add: demand_answer_def Let_def)
  have "confidence (demand_answer ?d [1/3, -1/6, -2/3]) = plus_minus @ ''100%''"
    using demand_negative_point_confidence [OF e fut] b by simp
  then show ?thesis
    using e b by (simp add: demand_answer_def Let_def p)
qed

end
