(* ===== verification/Error_Hist.thy ===== *)
theory Error_Hist
  imports Py_Prelude
begin

text \<open>
  The handler of \<open>POST /forecast/errors\<close> (\<open>forecast_errors\<close>, lines 57--71 of
  \<open>src/backend/app.py\<close>).  It pairs the first \<open>min(len(actual), len(predicted))\<close>
  values, rounds each residual to the nearest multiple of \<open>5\<close> (Python's \<open>round\<close>,
  half to even, on \<open>r / 5\<close>), counts the buckets in a dictionary and answers the
  items of that dictionary sorted by bucket.  The dictionary is modelled as an
  association list in insertion order (\<open>bucket_inc\<close> is \<open>bucket[b] =
  bucket.get(b, 0) + 1\<close>), the loop as a left fold, \<open>sorted(bucket.items())\<close> as
  \<open>sort\<close> on the pairs (lexicographic, as Python compares tuples).  The abstract
  specification \<open>hist_spec\<close> is the ascending list of the distinct buckets of the
  residual multiset with their multiplicities; \<open>forecast_errors_refines\<close> shows the
  handler computes exactly it.
\<close>

record errors_req =
  actual_list :: "real list option"
  predicted_list :: "real list option"

record hist_entry =
  error :: int
  frequency :: nat

definition bucket_of :: "real \<Rightarrow> int" where
  "bucket_of r = py_round (r / 5) * 5"

fun bucket_inc :: "int \<Rightarrow> (int \<times> nat) list \<Rightarrow> (int \<times> nat) list" where
  "bucket_inc b [] = [(b, 1)]"
| "bucket_inc b ((k, c) # kvs) = (if k = b then (k, c + 1) # kvs else (k, c) # bucket_inc b kvs)"

definition count_buckets :: "real list \<Rightarrow> (int \<times> nat) list" where
  "count_buckets resid = fold (\<lambda>r bucket. bucket_inc (bucket_of r) bucket) resid []"

definition forecast_errors :: "errors_req \<Rightarrow> hist_entry list" where
  "forecast_errors data =
     (let act = get_default [] (actual_list data); pred = get_default [] (predicted_list data)
      in if act = [] \<or> pred = [] then []
         else
           let n = min (length act) (length pred);
               resid = map (\<lambda>i. act ! i - pred ! i) [0..<n];
               bucket = count_buckets resid
           in map (\<lambda>(k, v). \<lparr>error = k, frequency = v\<rparr>) (sort bucket))"

subsection \<open>The abstract histogram\<close>

definition hist_spec :: "int multiset \<Rightarrow> hist_entry list" where
  "hist_spec M = map (\<lambda>k. \<lparr>error = k, frequency = count M k\<rparr>) (sorted_list_of_set (set_mset M))"

text \<open>The bucket list read as a multiset: every key repeated by its count.\<close>

definition bucket_mset :: "(int \<times> nat) list \<Rightarrow> int multiset" where
  "bucket_mset kvs = (\<Sum>(k, c) \<leftarrow> kvs. replicate_mset c k)"

subsection \<open>The bucket dictionary\<close>

lemma bucket_inc_keys: "map fst (bucket_inc b kvs) = (if b \<in> set (map fst kvs) then map fst kvs else map fst kvs @ [b])"
  by (induction b kvs rule: bucket_inc.induct) auto

lemma bucket_inc_distinct: "distinct (map fst kvs) \<Longrightarrow> distinct (map fst (bucket_inc b kvs))"
  by (simp add: bucket_inc_keys)

lemma bucket_inc_mset: "bucket_mset (bucket_inc b kvs) = add_mset b (bucket_mset kvs)"
  by (induction b kvs rule: bucket_inc.induct) (auto simp: bucket_mset_def)

lemma bucket_inc_pos: "0 \<notin> set (map snd kvs) \<Longrightarrow> 0 \<notin> set (map snd (bucket_inc b kvs))"
  by (induction b kvs rule: bucket_inc.induct) auto

lemma count_buckets_inv:
  assumes "distinct (map fst kvs)" "0 \<notin> set (map snd kvs)"
  shows "distinct (map fst (fold (\<lambda>r bucket. bucket_inc (bucket_of r) bucket) rs kvs))
         \<and> 0 \<notin> set (map snd (fold (\<lambda>r bucket. bucket_inc (bucket_of r) bucket) rs kvs))
         \<and> bucket_mset (fold (\<lambda>r bucket. bucket_inc (bucket_of r) bucket) rs kvs)
             = bucket_mset kvs + mset (map bucket_of rs)"
  using assms
proof (induction rs arbitrary: kvs)
  case Nil
  then show ?case by simp
next
  case (Cons r rs)
  let ?kvs' = "bucket_inc (bucket_of r) kvs"
  have "distinct (map fst ?kvs')" using Cons.prems(1) by (rule bucket_inc_distinct)
  moreover have "0 \<notin> set (map snd ?kvs')" using Cons.prems(2) by (rule bucket_inc_pos)
  ultimately have "distinct (map fst (fold (\<lambda>r bucket. bucket_inc (bucket_of r) bucket) rs ?kvs'))
         \<and> 0 \<notin> set (map snd (fold (\<lambda>r bucket. bucket_inc (bucket_of r) bucket) rs ?kvs'))
         \<and> bucket_mset (fold (\<lambda>r bucket. bucket_inc (bucket_of r) bucket) rs ?kvs')
             = bucket_mset ?kvs' + mset (map bucket_of rs)"
    by (rule Cons.IH)
  then show ?case by (simp add: bucket_inc_mset)
qed

lemma count_buckets_props:
  "distinct (map fst (count_buckets rs)) \<and> 0 \<notin> set (map snd (count_buckets rs))
   \<and> bucket_mset (count_buckets rs) = mset (map bucket_of rs)"
  using count_buckets_inv [of "[]" rs] by (simp add: count_buckets_def bucket_mset_def)

subsection \<open>Sorting the items\<close>

lemma sorted_fst_sort: "sorted (map fst (sort (kvs :: (int \<times> nat) list)))"
proof -
  have "sorted_wrt (\<le>) (sort kvs)" using sorted_sort [of kvs] by simp
  then have "sorted_wrt (\<lambda>x y. fst x \<le> fst y) (sort kvs)"
    by (rule sorted_wrt_mono_rel [rotated]) (auto simp: less_eq_prod_def)
  then show ?thesis by (simp add: sorted_wrt_map)
qed

lemma distinct_fst_sort: "distinct (map fst kvs) \<Longrightarrow> distinct (map fst (sort kvs))"
  by (metis mset_eq_imp_distinct_iff mset_map mset_sort)

lemma bucket_mset_count:
  "distinct (map fst kvs) \<Longrightarrow> (k, c) \<in> set kvs \<Longrightarrow> count (bucket_mset kvs) k = c"
proof (induction kvs)
  case Nil
  then show ?case by simp
next
  case (Cons p kvs)
  obtain k' c' where p: "p = (k', c')" by (cases p)
  show ?case
  proof (cases "k' = k")
    case True
    with Cons.prems p have "c' = c" "k \<notin> fst ` set kvs" by (auto simp: image_iff)
    moreover have "k \<notin> fst ` set kvs \<Longrightarrow> count (bucket_mset kvs) k = 0"
      by (induction kvs) (auto simp: bucket_mset_def)
    ultimately show ?thesis using True p by (simp add: bucket_mset_def)
  next
    case False
    with Cons p show ?thesis by (simp add: bucket_mset_def)
  qed
qed

lemma set_bucket_mset: "0 \<notin> set (map snd kvs) \<Longrightarrow> set_mset (bucket_mset kvs) = set (map fst kvs)"
  by (induction kvs) (auto simp: bucket_mset_def)

text \<open>An association list without repeated keys or zero counts, sorted, is the abstract
  histogram of the multiset it denotes.\<close>

lemma sort_buckets_hist_spec:
  assumes "distinct (map fst kvs)" and "0 \<notin> set (map snd kvs)"
  shows "map (\<lambda>(k, v). \<lparr>error = k, frequency = v\<rparr>) (sort kvs) = hist_spec (bucket_mset kvs)"
proof -
  let ?S = "sort kvs"
  have keys: "sorted_list_of_set (set_mset (bucket_mset kvs)) = map fst ?S"
  proof -
    have e: "set_mset (bucket_mset kvs) = set (map fst ?S)"
      using assms(2) by (simp add: set_bucket_mset)
    have "sorted_list_of_set (set (map fst ?S)) = sort (remdups (map fst ?S))"
      by (rule sorted_list_of_set_sort_remdups)
    also have "\<dots> = map fst ?S"
      using distinct_fst_sort [OF assms(1)] sorted_fst_sort [of kvs]
      by (simp add: distinct_remdups_id sorted_sort_id)
    finally show ?thesis by (simp only: e)
  qed
  have "\<And>p. p \<in> set ?S \<Longrightarrow> snd p = count (bucket_mset kvs) (fst p)"
    using assms(1) by (auto intro: bucket_mset_count [symmetric])
  then show ?thesis
    by (simp add: hist_spec_def keys case_prod_unfold)
qed

subsection \<open>Properties of the abstract histogram\<close>

lemma hist_spec_errors: "map error (hist_spec M) = sorted_list_of_set (set_mset M)"
  by (simp add: hist_spec_def comp_def)

lemma hist_spec_total: "sum_list (map frequency (hist_spec M)) = size M"
proof -
  have "sum_list (map frequency (hist_spec M)) = (\<Sum>k\<leftarrow>sorted_list_of_set (set_mset M). count M k)"
    by (simp add: hist_spec_def comp_def)
  also have "\<dots> = (\<Sum>k\<in>set_mset M. count M k)"
    by (simp add: sum_list_distinct_conv_sum_set)
  also have "\<dots> = size M"
    by (simp add: size_multiset_overloaded_eq)
  finally show ?thesis .
qed

lemma hist_spec_entries: "e \<in> set (hist_spec M) \<Longrightarrow> error e \<in># M \<and> frequency e = count M (error e)"
  by (auto simp: hist_spec_def)

subsection \<open>Properties of the handler\<close>

lemma errors_resid_map2:
  "map (\<lambda>i. act ! i - pred ! i) [0..<min (length act) (length pred)] = map2 (-) act pred"
  by (rule nth_equalityI) simp_all

text \<open>Refinement: the handler answers the abstract histogram of the multiset of buckets
  of the residuals \<open>actual[i] - predicted[i]\<close> over the common prefix, and the empty
  list when either input is empty.\<close>

lemma forecast_errors_hist_spec:
  "forecast_errors data =
     (if get_default [] (actual_list data) = [] \<or> get_default [] (predicted_list data) = [] then []
      else hist_spec (mset (map bucket_of
             (map2 (-) (get_default [] (actual_list data)) (get_default [] (predicted_list data))))))"
proof -
  let ?rs = "map2 (-) (get_default [] (actual_list data)) (get_default [] (predicted_list data))"
  have "map (\<lambda>(k, v). \<lparr>error = k, frequency = v\<rparr>) (sort (count_buckets ?rs))
        = hist_spec (mset (map bucket_of ?rs))"
    using count_buckets_props [of ?rs] sort_buckets_hist_spec [of "count_buckets ?rs"] by simp
  then show ?thesis
    by (simp add: forecast_errors_def errors_resid_map2 Let_def)
qed

text \<open>C2: Refinement: the handler's dictionary-and-sort computation equals the abstract histogram of the multiset of buckets of the residuals over the common prefix, and the empty list when either input is empty.\<close>

theorem forecast_errors_refines:
  "forecast_errors data =
     (if get_default [] (actual_list data) = [] \<or> get_default [] (predicted_list data) = [] then []
      else hist_spec (mset (map bucket_of
             (map2 (-) (get_default [] (actual_list data)) (get_default [] (predicted_list data))))))"
  by (rule forecast_errors_hist_spec)

text \<open>C8: The histogram's buckets are strictly ascending: sorted, no bucket twice.\<close>

theorem errors_hist_sorted: "sorted_wrt (<) (map error (forecast_errors data))"
  by (simp add: forecast_errors_hist_spec hist_spec_errors)

text \<open>C9: The frequencies add up to the number of compared pairs, the length of the
  shorter input.\<close>

theorem errors_hist_total:
  assumes "get_default [] (actual_list data) \<noteq> []" and "get_default [] (predicted_list data) \<noteq> []"
  shows "sum_list (map frequency (forecast_errors data))
         = min (length (get_default [] (actual_list data))) (length (get_default [] (predicted_list data)))"
  using assms by (simp add: forecast_errors_hist_spec hist_spec_total)

text \<open>Each bucket is the multiple of 5 nearest to its residuals (within 5/2), and
  reported with a positive count.\<close>

lemma bucket_of_nearest: "5 dvd bucket_of r \<and> \<bar>r - of_int (bucket_of r)\<bar> \<le> 5/2"
proof -
  have "\<bar>r / 5 - of_int (py_round (r / 5))\<bar> \<le> 1/2" by (rule py_round_dist)
  then have "\<bar>r - 5 * of_int (py_round (r / 5))\<bar> \<le> 5/2"
    by (simp add: abs_le_iff field_simps)
  then show ?thesis by (simp add: bucket_of_def mult.commute)
qed

text \<open>C16: Every entry of the histogram is a multiple of 5 with a positive count, and is the bucket of some residual lying within 5/2 of it.\<close>

theorem errors_hist_entries:
  assumes "e \<in> set (forecast_errors data)"
  shows "5 dvd error e \<and> 0 < frequency e
         \<and> (\<exists>r \<in> set (map2 (-) (get_default [] (actual_list data)) (get_default [] (predicted_list data))).
              bucket_of r = error e \<and> \<bar>r - of_int (error e)\<bar> \<le> 5/2)"
proof -
  let ?rs = "map2 (-) (get_default [] (actual_list data)) (get_default [] (predicted_list data))"
  have e: "e \<in> set (hist_spec (mset (map bucket_of ?rs)))"
    using assms by (simp add: forecast_errors_hist_spec split: if_splits)
  from hist_spec_entries [OF e]
  have m: "error e \<in># mset (map bucket_of ?rs)"
    and f: "frequency e = count (mset (map bucket_of ?rs)) (error e)" by blast+
  from m have pos: "0 < frequency e" by (simp only: f count_greater_zero_iff)
  from m have "error e \<in> bucket_of ` set ?rs" by (simp only: in_multiset_in_set set_map)
  then obtain r where r: "r \<in> set ?rs" "bucket_of r = error e" by (metis imageE)
  have near: "bucket_of r = error e \<and> \<bar>r - of_int (error e)\<bar> \<le> 5/2"
    using r(2) bucket_of_nearest [of r] by simp
  have "5 dvd error e" using r(2) bucket_of_nearest [of r] by simp
  with pos near r(1) show ?thesis by blast
qed

text \<open>C20: A residual exactly halfway between two multiples of 5 goes to the one that is
  a multiple of 10 (Python 3's \<open>round\<close>, half to even), on both sides of zero.\<close>

theorem bucket_of_ties:
  "bucket_of (5 * of_int k + 5 / 2) = (if even k then 5 * k else 5 * k + 5)
   \<and> 10 dvd bucket_of (5 * of_int k + 5 / 2)"
proof -
  have h: "(5 * of_int k + 5 / 2) / 5 = (of_int k + 1 / 2 :: real)" by simp
  have b: "bucket_of (5 * of_int k + 5 / 2) = (if even k then 5 * k else 5 * k + 5)"
    by (simp only: bucket_of_def h py_round_half) simp
  have "10 dvd (if even k then 5 * k else 5 * k + 5)"
    by (auto elim!: evenE oddE)
  with b show ?thesis by simp
qed
text \<open>Instances: residuals \<open>2.5\<close> and \<open>-2.5\<close> land in bucket \<open>0\<close>, \<open>7.5\<close> and
  \<open>12.5\<close> in bucket \<open>10\<close>.\<close>

lemma bucket_of_tie_examples:
  "bucket_of 2.5 = 0 \<and> bucket_of (-2.5) = 0 \<and> bucket_of 7.5 = 10 \<and> bucket_of 12.5 = 10"
  by (simp add: bucket_of_def py_round_def)

subsection \<open>Swapping the inputs, and identical inputs\<close>

text \<open>Python's \<open>round\<close> is odd, \<open>round(-x) = -round(x)\<close>, so the bucket of
  a negated residual is the negated bucket, and the histogram of a multiset mirrored at
  \<open>0\<close> is the reversed, mirrored histogram.\<close>

lemma bucket_of_neg: "bucket_of (- r) = - bucket_of r"
proof -
  have "- r / 5 = - (r / 5)" by simp
  then show ?thesis
    by (simp only: bucket_of_def py_round_neg mult_minus_left)
qed

lemma map2_minus_swap: "map2 (-) q a = map uminus (map2 (-) a (q :: real list))"
  by (induction q a rule: list_induct2') auto

lemma sorted_list_of_set_neg:
  assumes "finite S"
  shows "sorted_list_of_set (uminus ` S) = rev (map uminus (sorted_list_of_set (S :: int set)))"
proof -
  let ?l = "rev (map uminus (sorted_list_of_set S))"
  have "sorted_wrt (<) ?l"
    by (simp add: sorted_wrt_rev sorted_wrt_map)
  moreover have "set ?l = uminus ` S" using assms by simp
  moreover have "length ?l = card (uminus ` S)"
    using assms by (simp add: card_image inj_on_def)
  ultimately show ?thesis
    using sorted_list_of_set_unique [OF finite_imageI [OF assms]] by blast
qed

lemma count_image_uminus: "count (image_mset uminus M) (- k) = count M (k :: int)"
  by (induction M) auto

lemma hist_spec_neg:
  "hist_spec (image_mset uminus M) = rev (map (\<lambda>e. e\<lparr>error := - error e\<rparr>) (hist_spec M))"
  by (simp add: hist_spec_def sorted_list_of_set_neg rev_map count_image_uminus)

lemma map2_minus_self: "map2 (-) a a = replicate (length a) (0::real)"
  by (induction a) auto

text \<open>C23: Swapping actual and predicted mirrors the histogram: the buckets are negated
  and their order reversed, with the same frequencies.\<close>

theorem errors_swap_mirror:
  "forecast_errors \<lparr>actual_list = p, predicted_list = a\<rparr>
   = rev (map (\<lambda>e. e\<lparr>error := - error e\<rparr>) (forecast_errors \<lparr>actual_list = a, predicted_list = p\<rparr>))"
proof -
  have "map bucket_of (map2 (-) (get_default [] p) (get_default [] a))
        = map uminus (map bucket_of (map2 (-) (get_default [] a) (get_default [] p)))"
    by (simp only: map2_minus_swap [of "get_default [] p"] map_map comp_def bucket_of_neg)
  then have "mset (map bucket_of (map2 (-) (get_default [] p) (get_default [] a)))
        = image_mset uminus (mset (map bucket_of (map2 (-) (get_default [] a) (get_default [] p))))"
    by (simp only: mset_map)
  then show ?thesis
    by (auto simp: forecast_errors_hist_spec hist_spec_neg)
qed

text \<open>C24: Identical non-empty actual and predicted lists give the single bucket \<open>0\<close>
  holding every pair.\<close>

theorem errors_identical:
  assumes "a \<noteq> []"
  shows "forecast_errors \<lparr>actual_list = Some a, predicted_list = Some a\<rparr>
         = [\<lparr>error = 0, frequency = length a\<rparr>]"
proof -
  have "bucket_of 0 = 0" by (simp add: bucket_of_def)
  then have "mset (map bucket_of (map2 (-) a a)) = replicate_mset (length a) 0"
    by (simp add: map2_minus_self)
  with assms show ?thesis
    by (simp add: forecast_errors_hist_spec hist_spec_def)
qed

subsection \<open>Witnesses\<close>

text \<open>The spec's scenario: residuals \<open>-2, 2\<close> both round to bucket \<open>0\<close>.\<close>

lemma errors_scenario_eval:
  "forecast_errors \<lparr>actual_list = Some [10, 20], predicted_list = Some [12, 18]\<rparr>
   = [\<lparr>error = 0, frequency = 2\<rparr>]"
  by code_simp

theorem errors_hist_total_witness:
  "get_default [] (actual_list \<lparr>actual_list = Some [10, 20, 30], predicted_list = Some [12, 18]\<rparr>) \<noteq> []
   \<and> get_default [] (predicted_list \<lparr>actual_list = Some [10, 20, 30], predicted_list = Some [12, 18]\<rparr>) \<noteq> []
   \<and> sum_list (map frequency (forecast_errors \<lparr>actual_list = Some [10, 20, 30], predicted_list = Some [12, 18]\<rparr>))
       = 2"
  using errors_hist_total [of "\<lparr>actual_list = Some [10, 20, 30], predicted_list = Some [12, 18]\<rparr>"] by simp

theorem errors_hist_entries_witness:
  "\<lparr>error = 0, frequency = 2\<rparr> \<in> set (forecast_errors \<lparr>actual_list = Some [10, 20], predicted_list = Some [12, 18]\<rparr>)
   \<and> 5 dvd error \<lparr>error = 0, frequency = 2\<rparr> \<and> 0 < frequency \<lparr>error = 0, frequency = 2\<rparr>"
  using errors_hist_entries [of "\<lparr>error = 0, frequency = 2\<rparr>"
      "\<lparr>actual_list = Some [10, 20], predicted_list = Some [12, 18]\<rparr>"]
  by (simp add: errors_scenario_eval)

theorem errors_identical_witness:
  "[10, 20, 12.5 :: real] \<noteq> []
   \<and> forecast_errors \<lparr>actual_list = Some [10, 20, 12.5], predicted_list = Some [10, 20, 12.5]\<rparr>
       = [\<lparr>error = 0, frequency = 3\<rparr>]"
  using errors_identical [of "[10, 20, 12.5]"] by simp

text \<open>Actual \<open>12, 18, 0\<close> against predicted \<open>10, 20, 7.5\<close>: the residuals
  \<open>2, -2, -7.5\<close> fall in the buckets \<open>0, 0, -10\<close>.\<close>

lemma errors_swap_mirror_example:
  "forecast_errors \<lparr>actual_list = Some [12, 18, 0], predicted_list = Some [10, 20, 7.5]\<rparr>
   = [\<lparr>error = -10, frequency = 1\<rparr>, \<lparr>error = 0, frequency = 2\<rparr>]"
  by code_simp

end
