(* ===== verification/Compare.thy ===== *)
theory Compare
  imports Py_Format
begin

text \<open>
  The handler of \<open>POST /forecast/compare\<close> (\<open>forecast_compare\<close>, lines 73--89 of
  \<open>src/backend/app.py\<close>).  For each row it reads \<open>actual\<close> and \<open>predicted\<close>
  (default \<open>0\<close>) and \<open>event\<close> (default \<open>""\<close>), scores the symmetric ratio
  \<open>min / max\<close> when both are positive and \<open>0\<close> otherwise, and appends the output
  row and the accuracy to two lists; the average is the mean accuracy, \<open>0\<close> without
  rows.  Accuracies and the average are printed as percentages with one decimal.
  The loop is \<open>compare_loop\<close>, which threads both lists as the code does; the lemma
  \<open>compare_loop_map\<close> shows it equals mapping the row function over the input.
\<close>

record cmp_row =
  row_event :: "string option"
  row_actual :: json_num
  row_predicted :: json_num

record cmp_out =
  out_event :: string
  out_actual :: int
  out_predicted :: int
  out_accuracy :: string

record compare_req =
  rows :: "cmp_row list option"

record compare_resp =
  out_rows :: "cmp_out list"
  average :: string

definition row_accuracy :: "real \<Rightarrow> real \<Rightarrow> real" where
  "row_accuracy a p = (if 0 < a \<and> 0 < p then min a p / max a p else 0)"

definition pct_str :: "real \<Rightarrow> string" where
  "pct_str acc = fmt_f1 (acc * 100) @ ''%''"

fun compare_loop :: "cmp_row list \<Rightarrow> cmp_out list \<Rightarrow> real list \<Rightarrow> cmp_out list \<times> real list" where
  "compare_loop [] out accs = (out, accs)"
| "compare_loop (row # rs) out accs =
     (let a = get_default 0 (row_actual row);
          p = get_default 0 (row_predicted row);
          acc = row_accuracy a p
      in compare_loop rs
           (out @ [\<lparr>out_event = get_default [] (row_event row), out_actual = py_round a,
                    out_predicted = py_round p, out_accuracy = pct_str acc\<rparr>])
           (accs @ [acc]))"

definition forecast_compare :: "compare_req \<Rightarrow> compare_resp" where
  "forecast_compare data =
     (let (out, accs) = compare_loop (get_default [] (rows data)) [] [];
          avg = (if accs = [] then 0 else sum_list accs / real (length accs))
      in \<lparr>out_rows = out, average = pct_str avg\<rparr>)"

subsection \<open>The loop as a map\<close>

definition acc_of :: "cmp_row \<Rightarrow> real" where
  "acc_of row = row_accuracy (get_default 0 (row_actual row)) (get_default 0 (row_predicted row))"

definition out_of :: "cmp_row \<Rightarrow> cmp_out" where
  "out_of row =
     \<lparr>out_event = get_default [] (row_event row),
      out_actual = py_round (get_default 0 (row_actual row)),
      out_predicted = py_round (get_default 0 (row_predicted row)),
      out_accuracy = pct_str (acc_of row)\<rparr>"

text \<open>A row with its actual and predicted values exchanged.\<close>

definition swap_row :: "cmp_row \<Rightarrow> cmp_row" where
  "swap_row r = r\<lparr>row_actual := row_predicted r, row_predicted := row_actual r\<rparr>"

text \<open>The accumulating loop appends exactly the mapped rows and accuracies, in order.\<close>

lemma compare_loop_map:
  "compare_loop rs out accs = (out @ map out_of rs, accs @ map acc_of rs)"
  by (induction rs arbitrary: out accs) (simp_all add: out_of_def acc_of_def Let_def)

lemma forecast_compare_map:
  "forecast_compare data =
     \<lparr>out_rows = map out_of (get_default [] (rows data)),
      average = pct_str (if get_default [] (rows data) = [] then 0
                         else sum_list (map acc_of (get_default [] (rows data)))
                              / real (length (get_default [] (rows data))))\<rparr>"
  by (simp add: forecast_compare_def compare_loop_map)

subsection \<open>Accuracy of a row\<close>

lemma row_accuracy_bounds: "0 \<le> row_accuracy a p \<and> row_accuracy a p \<le> 1"
  by (simp add: row_accuracy_def min_def max_def divide_le_eq_1)

lemma row_accuracy_sym: "row_accuracy a p = row_accuracy p a"
  by (simp add: row_accuracy_def min.commute max.commute conj_commute)

lemma row_accuracy_one: "row_accuracy a p = 1 \<longleftrightarrow> 0 < a \<and> a = p"
  by (auto simp: row_accuracy_def min_def max_def split: if_splits)

lemma acc_of_swap: "acc_of (swap_row r) = acc_of r"
  by (simp add: acc_of_def swap_row_def row_accuracy_sym)

text \<open>A printed percentage of an accuracy in \<open>[0, 1]\<close> reads back as a number in
  \<open>[0, 100]\<close>: the value rounded half to even to one decimal.\<close>

lemma pct_str_read_back:
  assumes "0 \<le> acc" "acc \<le> 1"
  shows "parse_f1 (butlast (pct_str acc)) = Some (of_int (py_round (acc * 1000)) / 10)
         \<and> 0 \<le> (of_int (py_round (acc * 1000)) / 10 :: real)
         \<and> (of_int (py_round (acc * 1000)) / 10 :: real) \<le> 100"
proof -
  define k where "k = py_round (acc * 1000)"
  have m: "acc * 100 * 10 = acc * 1000" by simp
  have "parse_f1 (butlast (pct_str acc)) = Some (of_int (py_round (acc * 100 * 10)) / 10)"
    using fmt_f1_parse [of "acc * 100"] by (simp only: pct_str_def butlast_snoc)
  then have eq: "parse_f1 (butlast (pct_str acc)) = Some (of_int k / 10)"
    by (simp only: m k_def)
  have "0 \<le> k" using assms by (simp add: k_def py_round_nonneg)
  moreover have "k \<le> 1000" using assms unfolding k_def by (intro py_round_le_int) simp
  ultimately have "0 \<le> (of_int k / 10 :: real) \<and> (of_int k / 10 :: real) \<le> 100" by simp
  with eq show ?thesis by (simp add: k_def)
qed

subsection \<open>Properties of the handler\<close>

text \<open>C5: Every accuracy the handler reports, and the average, is a percentage between
  \<open>0.0%\<close> and \<open>100.0%\<close>: the text before \<open>%\<close> reads back as a number in \<open>[0, 100]\<close>
  that is the accuracy in percent, rounded to one decimal.\<close>

theorem compare_accuracy_range:
  assumes "ro \<in> set (out_rows (forecast_compare data))"
  shows "\<exists>acc. 0 \<le> acc \<and> acc \<le> 1 \<and> out_accuracy ro = pct_str acc
           \<and> (\<exists>v. parse_f1 (butlast (out_accuracy ro)) = Some v \<and> 0 \<le> v \<and> v \<le> 100)"
proof -
  from assms obtain row where "ro = out_of row"
    by (auto simp: forecast_compare_map)
  moreover have "0 \<le> acc_of row \<and> acc_of row \<le> 1"
    by (simp add: acc_of_def row_accuracy_bounds)
  moreover from this have "\<exists>v. parse_f1 (butlast (pct_str (acc_of row))) = Some v \<and> 0 \<le> v \<and> v \<le> 100"
    using pct_str_read_back [of "acc_of row"] by blast
  ultimately show ?thesis
    by (intro exI [of _ "acc_of row"]) (simp add: out_of_def)
qed

lemma mean_acc_bounds:
  "0 \<le> (if rs = [] then 0 else sum_list (map acc_of rs) / real (length rs))
   \<and> (if rs = [] then 0 else sum_list (map acc_of rs) / real (length rs)) \<le> (1::real)"
proof (cases "rs = []")
  case True
  then show ?thesis by simp
next
  case False
  have "sum_list (map acc_of rs) \<le> sum_list (map (\<lambda>_. 1) rs)"
    by (rule sum_list_mono) (simp add: acc_of_def row_accuracy_bounds)
  moreover have "0 \<le> sum_list (map acc_of rs)"
    by (rule sum_list_nonneg) (auto simp: acc_of_def row_accuracy_bounds)
  ultimately show ?thesis
    using False by (simp add: sum_list_triv divide_le_eq_1)
qed

text \<open>C13: The average is the printed mean of the row accuracies, \<open>0\<close> without rows; it
  lies in \<open>[0, 1]\<close> and reads back as a percentage in \<open>[0, 100]\<close>.\<close>

theorem compare_average_range:
  fixes data :: compare_req
  defines "rs \<equiv> get_default [] (rows data)"
  defines "avg \<equiv> (if rs = [] then 0
                  else (\<Sum>row\<leftarrow>rs. row_accuracy (get_default 0 (row_actual row))
                                               (get_default 0 (row_predicted row)))
                       / real (length rs))"
  shows "average (forecast_compare data) = pct_str avg \<and> 0 \<le> avg \<and> avg \<le> 1
         \<and> (\<exists>v. parse_f1 (butlast (average (forecast_compare data))) = Some v \<and> 0 \<le> v \<and> v \<le> 100)"
proof -
  have a: "avg = (if rs = [] then 0 else sum_list (map acc_of rs) / real (length rs))"
    by (simp add: avg_def acc_of_def [abs_def])
  have b: "0 \<le> avg \<and> avg \<le> 1"
    unfolding a by (rule mean_acc_bounds)
  then have "\<exists>v. parse_f1 (butlast (pct_str avg)) = Some v \<and> 0 \<le> v \<and> v \<le> 100"
    using pct_str_read_back [of avg] by blast
  moreover have "average (forecast_compare data) = pct_str avg"
    by (simp add: forecast_compare_map a rs_def)
  ultimately show ?thesis
    using b by simp
qed

text \<open>C12: A row whose actual or predicted value is not positive scores exactly \<open>0\<close>,
  printed \<open>0.0%\<close>.\<close>

theorem compare_nonpositive:
  assumes "i < length (get_default [] (rows data))"
    and "get_default 0 (row_actual (get_default [] (rows data) ! i)) \<le> 0
         \<or> get_default 0 (row_predicted (get_default [] (rows data) ! i)) \<le> 0"
  shows "out_accuracy (out_rows (forecast_compare data) ! i) = ''0.0%''"
  using assms
  by (auto simp: forecast_compare_map out_of_def acc_of_def row_accuracy_def pct_str_def fmt_f1_def
      nat_str.simps digit_char_def)

text \<open>C22: Output rows follow the input rows one for one, in order, with their events.\<close>

theorem compare_rows_order:
  "length (out_rows (forecast_compare data)) = length (get_default [] (rows data))
   \<and> map out_event (out_rows (forecast_compare data))
       = map (\<lambda>row. get_default [] (row_event row)) (get_default [] (rows data))"
  by (simp add: forecast_compare_map out_of_def comp_def)

text \<open>C25: The accuracy is symmetric: exchanging actual and predicted in every row
  changes no accuracy string and not the average.\<close>

theorem compare_swap_symmetric:
  "map out_accuracy (out_rows (forecast_compare \<lparr>rows = map_option (map swap_row) (rows data)\<rparr>))
     = map out_accuracy (out_rows (forecast_compare data))
   \<and> average (forecast_compare \<lparr>rows = map_option (map swap_row) (rows data)\<rparr>)
     = average (forecast_compare data)"
proof -
  have "get_default [] (map_option (map swap_row) (rows data)) = map swap_row (get_default [] (rows data))"
    by (cases "rows data") simp_all
  then show ?thesis
    by (simp add: forecast_compare_map out_of_def comp_def acc_of_swap)
qed

text \<open>C26: A row whose actual and predicted values are equal and positive scores
  \<open>100.0%\<close>.\<close>

theorem compare_exact_match:
  assumes "i < length (get_default [] (rows data))"
    and "get_default 0 (row_predicted (get_default [] (rows data) ! i))
         = get_default 0 (row_actual (get_default [] (rows data) ! i))"
    and "0 < get_default 0 (row_actual (get_default [] (rows data) ! i))"
  shows "out_accuracy (out_rows (forecast_compare data) ! i) = ''100.0%''"
proof -
  have "acc_of (get_default [] (rows data) ! i) = 1"
    using assms(2,3) by (simp add: acc_of_def row_accuracy_one)
  with assms(1) show ?thesis
    by (simp add: forecast_compare_map out_of_def pct_str_def fmt_f1_def nat_str.simps digit_char_def)
qed

subsection \<open>Witnesses\<close>

text \<open>The spec's scenario: actual \<open>100\<close>, predicted \<open>80\<close> scores \<open>80.0%\<close>, and so
  does the average.\<close>

lemma compare_scenario_eval:
  "forecast_compare \<lparr>rows = Some [\<lparr>row_event = Some ''A'', row_actual = Some 100, row_predicted = Some 80\<rparr>]\<rparr>
   = \<lparr>out_rows = [\<lparr>out_event = ''A'', out_actual = 100, out_predicted = 80, out_accuracy = ''80.0%''\<rparr>],
      average = ''80.0%''\<rparr>"
  by code_simp

theorem compare_accuracy_range_witness:
  "\<lparr>out_event = ''A'', out_actual = 100, out_predicted = 80, out_accuracy = ''80.0%''\<rparr>
     \<in> set (out_rows (forecast_compare
          \<lparr>rows = Some [\<lparr>row_event = Some ''A'', row_actual = Some 100, row_predicted = Some 80\<rparr>]\<rparr>))
   \<and> (\<exists>v. parse_f1 (butlast ''80.0%'') = Some v \<and> 0 \<le> v \<and> v \<le> 100)"
  using compare_accuracy_range [of "\<lparr>out_event = ''A'', out_actual = 100, out_predicted = 80,
      out_accuracy = ''80.0%''\<rparr>"
      "\<lparr>rows = Some [\<lparr>row_event = Some ''A'', row_actual = Some 100, row_predicted = Some 80\<rparr>]\<rparr>"]
  by (simp add: compare_scenario_eval) blast

theorem compare_nonpositive_witness:
  "(1::nat) < length (get_default [] (rows \<lparr>rows = Some [\<lparr>row_event = Some ''A'', row_actual = Some 100,
        row_predicted = Some 80\<rparr>, \<lparr>row_event = None, row_actual = Some (-5), row_predicted = Some 3\<rparr>]\<rparr>))
   \<and> out_accuracy (out_rows (forecast_compare \<lparr>rows = Some [\<lparr>row_event = Some ''A'', row_actual = Some 100,
        row_predicted = Some 80\<rparr>, \<lparr>row_event = None, row_actual = Some (-5), row_predicted = Some 3\<rparr>]\<rparr>) ! 1)
     = ''0.0%''"
  using compare_nonpositive [of 1 "\<lparr>rows = Some [\<lparr>row_event = Some ''A'', row_actual = Some 100,
        row_predicted = Some 80\<rparr>, \<lparr>row_event = None, row_actual = Some (-5), row_predicted = Some 3\<rparr>]\<rparr>"]
  by simp

theorem compare_exact_match_witness:
  "(1::nat) < length (get_default [] (rows \<lparr>rows = Some [\<lparr>row_event = Some ''A'', row_actual = Some 100,
        row_predicted = Some 80\<rparr>, \<lparr>row_event = Some ''B'', row_actual = Some 50, row_predicted = Some 50\<rparr>]\<rparr>))
   \<and> out_accuracy (out_rows (forecast_compare \<lparr>rows = Some [\<lparr>row_event = Some ''A'', row_actual = Some 100,
        row_predicted = Some 80\<rparr>, \<lparr>row_event = Some ''B'', row_actual = Some 50, row_predicted = Some 50\<rparr>]\<rparr>) ! 1)
     = ''100.0%''"
  using compare_exact_match [of 1 "\<lparr>rows = Some [\<lparr>row_event = Some ''A'', row_actual = Some 100,
        row_predicted = Some 80\<rparr>, \<lparr>row_event = Some ''B'', row_actual = Some 50, row_predicted = Some 50\<rparr>]\<rparr>"]
  by simp

end
