(* ===== verification/Spec2Isabelle.thy ===== *)
theory Spec2Isabelle
  imports Trend Demand Error_Hist Compare
begin

text \<open>
  \<^bold>\<open>A verification model of the Forecast API\<close> (\<open>src/backend/app.py\<close>).

  \<^bold>\<open>The program.\<close>  A Flask service with five stateless request handlers:
  \<open>health\<close> (\<open>GET /health\<close>), \<open>forecast_trend\<close> (\<open>POST /forecast/trend\<close>),
  \<open>forecast_demand\<close> (\<open>POST /forecast/demand\<close>), \<open>forecast_errors\<close>
  (\<open>POST /forecast/errors\<close>) and \<open>forecast_compare\<close> (\<open>POST /forecast/compare\<close>).
  Each decodes a JSON body, reads its fields with defaults, computes and answers JSON.
  The trend and demand handlers share one utility, scikit-learn's
  \<open>LinearRegression\<close> fitted on the indices \<open>0 .. n-1\<close>; there is no shared state.

  \<^bold>\<open>Theories.\<close>
  \<^item> \<open>Py_Prelude\<close>: reading a field with a default (\<open>get_default\<close> for
    \<open>dict.get\<close>), Python's \<open>round\<close> (\<open>py_round\<close>, half to even) and \<open>int\<close>
    (\<open>py_int\<close>, truncation), numpy's \<open>arange\<close>, \<open>mean\<close> and \<open>std\<close>
    (population, \<open>ddof = 0\<close>); lemmas on rounding (monotone, within \<open>1/2\<close>,
    bounded by integers) and on sums of lists.
  \<^item> \<open>Py_Format\<close>: the text of the responses, \<open>"{:.0f}"\<close> and \<open>".1f"\<close>
    formatting (\<open>fmt_f0\<close>, \<open>fmt_f1\<close>) over a decimal printer \<open>nat_str\<close>, with its
    strict reader \<open>parse_f1\<close> (sign, digits without leading zeros, a point, one
    digit; anything else is \<open>None\<close>) and the round trips
    \<open>parse_nat (nat_str n) = n\<close> and
    \<open>parse_f1 (fmt_f1 x) = Some (round(10 x) / 10)\<close> for every \<open>x\<close> (claim C21).
  \<^item> \<open>Linear_Fit\<close>: \<open>lr_fit\<close>/\<open>lr_predict\<close>, scikit-learn's one-feature fit
    (library code, modelled from its documented algorithm), and
    \<open>lr_predict_batch\<close>, \<open>predict\<close> on an array, which raises \<open>ValueError\<close>
    (\<open>py_error\<close>) on an array of no sample: the normal equations,
    least-squares optimality against every line (C3), exactness on data on a line and on
    flat data, and the shift of the targets by a constant.
  \<^item> \<open>Trend\<close>: \<open>forecast_trend\<close>, lines 13--27: \<open>r2\<close> in \<open>[0,1]\<close> (C4) because the
    flat line at the mean is a candidate of the least-squares problem; flat (C7) and
    linear (C6) series; adding a constant to every value shifts the predictions and keeps
    \<open>r2\<close> (C29); the spec's scenario \<open>10, 20, 30\<close>.
  \<^item> \<open>Demand\<close>: \<open>forecast_demand\<close>, lines 29--55, of type
    \<open>py_error + demand_resp\<close>: a non-empty request with \<open>int(horizon) \<le> 0\<close> ends in
    the \<open>ValueError\<close> of \<open>predict\<close>.  Its intermediate values are
    \<open>demand_model\<close>, \<open>demand_future\<close> (itself fallible), \<open>demand_resid\<close>,
    \<open>demand_band\<close>, \<open>conf_percent\<close> and the response \<open>demand_answer\<close>.  Every
    answer has \<open>0 \<le> lower \<le> upper\<close> (C1), the point inside it when non-negative
    (C14) and a confidence \<open>"\<plusminus>P%"\<close> with \<open>P \<le> 100\<close> (C15); the empty request
    (C11); the number of future predictions \<open>int(horizon)\<close> (C27); the \<open>100%\<close>
    confidence of a negative point forecast (C28); the point forecast in closed form
    (C18) and data on a line (C19).  These are stated for \<open>forecast_demand data =
    Inr r\<close>, the answered requests; which requests fail is C10.
  \<^item> \<open>Error_Hist\<close>: \<open>forecast_errors\<close>, lines 57--71: the bucket dictionary is an
    association list updated in insertion order (\<open>bucket_inc\<close>, \<open>count_buckets\<close>, a
    fold), then sorted.  The abstract specification \<open>hist_spec\<close> is the histogram of a
    multiset; the handler refines it (C2), hence the buckets are strictly ascending (C8),
    the counts add up to the number of compared pairs (C9), each bucket is a multiple of
    5 within \<open>5/2\<close> of a residual (C16), ties round to even (C20), swapping the
    inputs mirrors the histogram (C23, since \<open>round\<close> is odd) and identical inputs
    give the single bucket \<open>0\<close> (C24).
  \<^item> \<open>Compare\<close>: \<open>forecast_compare\<close>, lines 73--89: the accumulating loop
    \<open>compare_loop\<close> equals a map over the rows; every accuracy and the average print
    as percentages in \<open>[0, 100]\<close> and the average is the mean accuracy, \<open>0\<close>
    without rows (C5, C13), non-positive values score \<open>0.0%\<close>
    (C12), equal positive values score \<open>100.0%\<close> (C26), rows keep their order
    (C22), and exchanging actual and predicted changes nothing (C25).
  \<^item> this theory: the routing of the five endpoints (\<open>handle\<close>, with
    \<open>Server_Error\<close> for the status 500 of an escaping exception); the requests
    answered with 500 are exactly the demand requests above (C10); and the property
    across handlers: sent the same values, the demand handler answers and its first
    future prediction is the trend handler's \<open>next\<close> (C17).

  \<^bold>\<open>Findings.\<close>  The error buckets use round-half-to-even (\<open>2.5\<close> goes to
  bucket \<open>0\<close>); an empty demand request answers without a \<open>future\<close> key; a
  non-empty demand request with \<open>int(horizon) \<le> 0\<close> fails with status 500, though the
  spec promises status 200 on every route and treats such horizons through
  \<open>max(1, horizon)\<close>; \<open>int\<close> truncates a fractional horizon; a negative point
  forecast makes the confidence \<open>100%\<close> through \<open>max(point, 1e-6)\<close>.

  \<^bold>\<open>Modelling choices.\<close>  Floats are exact reals: IEEE rounding is not modelled, so
  a theorem here is about the computation the code describes, not its floating-point
  error.  Python's \<open>round\<close> is round-half-to-even on that exact value.  A request
  body is a record of optional fields (\<open>None\<close>: the key is absent); JSON values of
  the wrong type, which make \<open>float()\<close> raise and Flask answer 500, are outside the
  model, as are Flask, CORS and JSON encoding.  The handlers' only loops run over the
  input lists (folds and maps), so every handler is a total function and no fuel is
  needed; the one exception inside the modelled code, \<open>predict\<close> on no sample, is a
  value of the sum type \<open>py_error + _\<close>.  Not yet
  modelled: the floating-point error of the computations, and the behaviour of
  \<open>float()\<close> on JSON values that are not numbers.
\<close>

subsection \<open>Routing\<close>

text \<open>The five routes of the Flask application (the decorators at lines 9, 13, 29, 57
  and 73): each request kind goes to its handler.  An exception escaping a handler makes
  Flask answer status 500 (\<open>Server_Error\<close>); every other answer has status 200.\<close>

datatype request =
    Health
  | Trend_Req trend_req
  | Demand_Req demand_req
  | Errors_Req errors_req
  | Compare_Req compare_req

datatype response =
    Health_Resp string
  | Trend_Resp trend_resp
  | Demand_Resp demand_resp
  | Errors_Resp "hist_entry list"
  | Compare_Resp compare_resp
  | Server_Error py_error

definition health :: string where
  "health = ''ok''"

fun handle :: "request \<Rightarrow> response" where
  "handle Health = Health_Resp health"
| "handle (Trend_Req d) = Trend_Resp (forecast_trend d)"
| "handle (Demand_Req d) = (case forecast_demand d of Inl e \<Rightarrow> Server_Error e | Inr r \<Rightarrow> Demand_Resp r)"
| "handle (Errors_Req d) = Errors_Resp (forecast_errors d)"
| "handle (Compare_Req d) = Compare_Resp (forecast_compare d)"

subsection \<open>Status codes\<close>

text \<open>C10: The only requests the API fails on (status 500) are demand requests with a
  non-empty item list and \<open>int(horizon) \<le> 0\<close>: scikit-learn's \<open>predict\<close> rejects
  the empty array of future indices with \<open>ValueError\<close>.  Every other request is
  answered.\<close>

theorem handle_server_error:
  "handle rq = Server_Error e \<longleftrightarrow>
     (\<exists>d. rq = Demand_Req d \<and> get_default [] (items d) \<noteq> [] \<and> demand_horizon d \<le> 0
          \<and> e = ValueError ''Found array with 0 sample(s)'')"
proof (cases rq)
  case (Demand_Req d)
  have "handle rq = Server_Error e \<longleftrightarrow> forecast_demand d = Inl e"
    using Demand_Req by (cases "forecast_demand d") simp_all
  then show ?thesis
    using Demand_Req by (simp add: demand_error_iff)
qed simp_all

theorem handle_server_error_witness:
  "handle (Demand_Req \<lparr>items = Some [Some 1, Some 3, None], horizon = Some (-2)\<rparr>)
     = Server_Error (ValueError ''Found array with 0 sample(s)'')"
proof -
  have "get_default [] (items \<lparr>items = Some [Some 1, Some 3, None], horizon = Some (-2)\<rparr>) \<noteq> []
        \<and> demand_horizon \<lparr>items = Some [Some 1, Some 3, None], horizon = Some (-2)\<rparr> \<le> 0"
    by (simp add: py_int_def)
  then show ?thesis
    using handle_server_error [of "Demand_Req \<lparr>items = Some [Some 1, Some 3, None], horizon = Some (-2)\<rparr>"
        "ValueError ''Found array with 0 sample(s)''"] by blast
qed

subsection \<open>Across handlers: the demand forecast continues the trend\<close>

lemma trend_next_model:
  assumes "get_default [] (series t) \<noteq> []"
  shows "next_val (forecast_trend t)
         = lr_predict (lr_fit (np_arange 0 (int (length (trend_values t)))) (trend_values t))
             (real (length (trend_values t)))"
  using assms by (simp add: forecast_trend_nonempty)

text \<open>C17: Sent the same list (as \<open>series\<close> of \<open>value\<close> fields and as \<open>items\<close> of
  \<open>units\<close> fields) and a horizon of at least one, the demand handler answers, and its
  first future prediction is the trend handler's \<open>next\<close> value: both fit the same
  line.\<close>

theorem demand_continues_trend:
  assumes "trend_values t = demand_values d" and "get_default [] (items d) \<noteq> []"
    and "1 \<le> demand_horizon d"
  shows "\<exists>r fs. forecast_demand d = Inr r \<and> future r = Some fs \<and> fs \<noteq> []
                \<and> hd fs = next_val (forecast_trend t)"
proof -
  have ne: "get_default [] (series t) \<noteq> []"
    using assms(1,2) by auto
  obtain fs where f: "demand_future d = Inr fs"
    and "fs \<noteq> [] \<and> hd fs = next_val (forecast_trend t)"
    using assms(3) demand_future_ok [of d]
    by (simp add: trend_next_model [OF ne] assms(1) demand_model_def lr_predict_def hd_map
        upt_conv_Cons)
  with assms(2) show ?thesis
    by (simp add: forecast_demand_nonempty demand_answer_def Let_def)
qed

theorem demand_continues_trend_witness:
  "trend_values \<lparr>series = Some [Some 1, Some 2]\<rparr>
     = demand_values \<lparr>items = Some [Some 1, Some 2], horizon = Some 2\<rparr>
   \<and> get_default [] (items \<lparr>items = Some [Some 1, Some 2], horizon = Some 2\<rparr>) \<noteq> []
   \<and> 1 \<le> demand_horizon \<lparr>items = Some [Some 1, Some 2], horizon = Some 2\<rparr>
   \<and> next_val (forecast_trend \<lparr>series = Some [Some 1, Some 2]\<rparr>) = 3
   \<and> forecast_demand \<lparr>items = Some [Some 1, Some 2], horizon = Some 2\<rparr>
       = Inr \<lparr>point = 7, lower = 7, upper = 7, confidence = plus_minus @ ''0%'', future = Some [3, 4]\<rparr>"
proof -
  have n: "next_val (forecast_trend \<lparr>series = Some [Some 1, Some 2]\<rparr>) = 3" by code_simp
  have "\<exists>r fs. forecast_demand \<lparr>items = Some [Some 1, Some 2], horizon = Some 2\<rparr> = Inr r
          \<and> future r = Some fs \<and> fs \<noteq> []
          \<and> hd fs = next_val (forecast_trend \<lparr>series = Some [Some 1, Some 2]\<rparr>)"
    by (rule demand_continues_trend) (simp_all add: py_int_def)
  then show ?thesis
    using n by (simp add: demand_example_eval py_int_def)
qed

end
